theory Spec2Isabelle
  imports Complex_Main "HOL-Library.Multiset"
begin

section \<open>JavaScript values\<close>

text \<open>
  The page works on parsed JSON payloads. A value is one of JavaScript's primitives, an
  array or an object (an association list, first binding wins). Numbers are the exact
  rational values of the doubles the payload holds; strings are their UTF-8 bytes.
\<close>

datatype json =
    JUndefined
  | JNull
  | JBool bool
  | JNum rat
  | JStr string
  | JArr "json list"
  | JObj "(string \<times> json) list"

text \<open>Thrown values: a \<^verbatim>\<open>TypeError\<close> of the runtime, or \<^verbatim>\<open>new Error(msg)\<close>.\<close>

datatype error = TypeError | Error string

text \<open>ToBoolean, as used by \<^verbatim>\<open>if (v)\<close>, \<^verbatim>\<open>!v\<close>, \<^verbatim>\<open>a && b\<close> and \<^verbatim>\<open>a || b\<close>.\<close>

fun truthy :: "json \<Rightarrow> bool" where
  "truthy JUndefined = False"
| "truthy JNull = False"
| "truthy (JBool b) = b"
| "truthy (JNum q) = (q \<noteq> 0)"
| "truthy (JStr s) = (s \<noteq> [])"
| "truthy (JArr xs) = True"
| "truthy (JObj kvs) = True"

fun nullish :: "json \<Rightarrow> bool" where
  "nullish JUndefined = True"
| "nullish JNull = True"
| "nullish v = False"

text \<open>
  \<^verbatim>\<open>v.k\<close> for a value that is neither null nor undefined and a name \<open>k\<close> that no
  built-in prototype defines (every field name of the payloads is such a name): the
  binding of an object, undefined on anything else.
\<close>

fun fld :: "json \<Rightarrow> string \<Rightarrow> json" where
  "fld (JObj kvs) k = (case map_of kvs k of Some v \<Rightarrow> v | None \<Rightarrow> JUndefined)"
| "fld v k = JUndefined"

text \<open>Optional chaining \<^verbatim>\<open>v?.k\<close> and the operator \<^verbatim>\<open>a || b\<close>.\<close>

definition opt :: "json \<Rightarrow> string \<Rightarrow> json" where
  "opt v k = (if nullish v then JUndefined else fld v k)"

definition orElse :: "json \<Rightarrow> json \<Rightarrow> json" where
  "orElse a b = (if truthy a then a else b)"

subsection \<open>Numbers and strings\<close>

definition digit :: "nat \<Rightarrow> char" where
  "digit d = ''0123456789'' ! d"

function show_nat :: "nat \<Rightarrow> string" where
  "show_nat n = (if n < 10 then [digit n] else show_nat (n div 10) @ [digit (n mod 10)])"
  by pat_completeness auto
termination
  by (relation "measure id") auto

declare show_nat.simps [simp del]

definition show_int :: "int \<Rightarrow> string" where
  "show_int i = (if i < 0 then CHR ''-'' # show_nat (nat (- i)) else show_nat (nat i))"

text \<open>
  What the runtime supplies and the repository does not define: the parser behind
  \<^verbatim>\<open>new Date(string)\<close> (\<open>None\<close> is the time value NaN of an Invalid Date),
  \<^verbatim>\<open>getFullYear\<close> of a time value in the local zone, Number-to-string for a
  number that is not an integer below \<open>10\<^sup>2\<^sup>1\<close>, string-to-Number (\<open>None\<close> is NaN),
  and the Number that \<^verbatim>\<open>parseInt\<close> makes of an integer beyond \<open>2\<^sup>5\<^sup>3\<close>.
\<close>

record platform =
  dateParse :: "string \<Rightarrow> int option"
  fullYearOf :: "int \<Rightarrow> int"
  numberText :: "rat \<Rightarrow> string"
  stringToNumber :: "string \<Rightarrow> rat option"
  bigInteger :: "int \<Rightarrow> int"

definition numStr :: "platform \<Rightarrow> rat \<Rightarrow> string" where
  "numStr P q =
     (if of_int \<lfloor>q\<rfloor> = q \<and> \<bar>q\<bar> < 10 ^ 21 then show_int \<lfloor>q\<rfloor> else numberText P q)"

fun joinWith :: "string \<Rightarrow> string list \<Rightarrow> string" where
  "joinWith sep [] = []"
| "joinWith sep [s] = s"
| "joinWith sep (s # t # ss) = s @ sep @ joinWith sep (t # ss)"

text \<open>
  ToString, as string concatenation and template literals apply it (with ToPrimitive
  before it). No property of a parsed payload is callable: an object with an own
  property \<^verbatim>\<open>toString\<close> cannot be converted and the conversion throws a TypeError;
  without one, \<^verbatim>\<open>Object.prototype.toString\<close> answers. An array is joined, its null
  and undefined entries as the empty string. \<open>textJS\<close> is the string of a value that
  can be converted.
\<close>

fun convertible :: "json \<Rightarrow> bool" where
  "convertible (JArr xs) = list_all convertible xs"
| "convertible (JObj kvs) = (map_of kvs ''toString'' = None)"
| "convertible v = True"

fun textJS :: "platform \<Rightarrow> json \<Rightarrow> string" where
  "textJS P JUndefined = ''undefined''"
| "textJS P JNull = ''null''"
| "textJS P (JBool b) = (if b then ''true'' else ''false'')"
| "textJS P (JNum q) = numStr P q"
| "textJS P (JStr s) = s"
| "textJS P (JArr xs) =
     joinWith '','' (map (\<lambda>x. if nullish x then [] else textJS P x) xs)"
| "textJS P (JObj kvs) = ''[object Object]''"

definition toStringJS :: "platform \<Rightarrow> json \<Rightarrow> error + string" where
  "toStringJS P v = (if convertible v then Inr (textJS P v) else Inl TypeError)"

text \<open>
  A template literal: each value converted in turn and followed by its literal text.
\<close>

fun template :: "platform \<Rightarrow> (json \<times> string) list \<Rightarrow> error + string" where
  "template P [] = Inr []"
| "template P ((v, lit) # rest) =
     (case toStringJS P v of
        Inl e \<Rightarrow> Inl e
      | Inr t \<Rightarrow> (case template P rest of Inl e \<Rightarrow> Inl e | Inr u \<Rightarrow> Inr (t @ lit @ u)))"

text \<open>
  ToNumber (\<open>None\<close> is NaN), and the comparisons \<^verbatim>\<open>v > 0\<close> and \<^verbatim>\<open>v <= 0\<close>.
  An array or an object is converted to a string first, which may throw.
\<close>

fun toNumber :: "platform \<Rightarrow> json \<Rightarrow> error + rat option" where
  "toNumber P JUndefined = Inr None"
| "toNumber P JNull = Inr (Some 0)"
| "toNumber P (JBool b) = Inr (Some (if b then 1 else 0))"
| "toNumber P (JNum q) = Inr (Some q)"
| "toNumber P (JStr s) = Inr (stringToNumber P s)"
| "toNumber P (JArr xs) =
     (case toStringJS P (JArr xs) of Inl e \<Rightarrow> Inl e | Inr t \<Rightarrow> Inr (stringToNumber P t))"
| "toNumber P (JObj kvs) =
     (case toStringJS P (JObj kvs) of Inl e \<Rightarrow> Inl e | Inr t \<Rightarrow> Inr None)"

definition isPositive :: "platform \<Rightarrow> json \<Rightarrow> error + bool" where
  "isPositive P v =
     (case toNumber P v of
        Inl e \<Rightarrow> Inl e
      | Inr n \<Rightarrow> Inr (case n of Some q \<Rightarrow> 0 < q | None \<Rightarrow> False))"

definition nonPositive :: "platform \<Rightarrow> json \<Rightarrow> error + bool" where
  "nonPositive P v =
     (case toNumber P v of
        Inl e \<Rightarrow> Inl e
      | Inr n \<Rightarrow> Inr (case n of Some q \<Rightarrow> q \<le> 0 | None \<Rightarrow> False))"

text \<open>The \<^verbatim>\<open>length\<close> property of a value that is neither null nor undefined.\<close>

fun lengthOf :: "json \<Rightarrow> json" where
  "lengthOf (JArr xs) = JNum (of_nat (length xs))"
| "lengthOf (JStr s) = JNum (of_nat (length s))"
| "lengthOf (JObj kvs) = fld (JObj kvs) ''length''"
| "lengthOf v = JUndefined"

text \<open>\<^verbatim>\<open>Math.round\<close>: the nearest integer, a tie going up.\<close>

definition jsRound :: "rat \<Rightarrow> int" where
  "jsRound q = \<lfloor>q + 1 / 2\<rfloor>"

subsection \<open>The network and the document\<close>

text \<open>
  The outcome of one \<^verbatim>\<open>fetch\<close> followed by \<^verbatim>\<open>res.json()\<close>: the request is
  rejected, or a response arrives with a status and a body that is JSON (\<open>Inr\<close>) or not.
\<close>

datatype reply = NetworkError string | Reply nat "string + json"

definition ok :: "nat \<Rightarrow> bool" where
  "ok status = (200 \<le> status \<and> status \<le> 299)"

text \<open>
  The document: the text content of each element by id; an id with no element is
  unbound. Every write of the page is guarded by the element's existence.
\<close>

type_synonym dom = "string \<rightharpoonup> string"

definition setText :: "dom \<Rightarrow> string \<Rightarrow> string \<Rightarrow> dom" where
  "setText d i t = (if d i = None then d else d(i \<mapsto> t))"

section \<open>The content-management client (cms-client.js)\<close>

record SanityClient =
  projectId :: string
  writeUrl :: string
  writeToken :: json

record request =
  url :: string
  bearer :: string
  document :: json

datatype submitResult = Success json | Failure string

fun success :: "submitResult \<Rightarrow> bool" where
  "success (Success d) = True"
| "success (Failure m) = False"

text \<open>
  \<^verbatim>\<open>submitJoinClubForm(formData)\<close>: the result object and the requests issued.
  \<open>stamp\<close> is \<^verbatim>\<open>new Date().toISOString()\<close>.
\<close>

definition submitJoinClubForm ::
  "platform \<Rightarrow> SanityClient \<Rightarrow> (string \<times> json) list \<Rightarrow> string \<Rightarrow> reply
     \<Rightarrow> submitResult \<times> request list" where
  "submitJoinClubForm P c formData stamp r =
     (if \<not> truthy (writeToken c)
      then (Failure ''Form submission requires backend setup'', [])
      else
        (case toStringJS P (writeToken c) of
           Inl e \<Rightarrow> (Failure ''Cannot convert object to primitive value'', [])
         | Inr token \<Rightarrow>
             let req = \<lparr>url = writeUrl c, bearer = token,
                   document = JObj [(''_type'', JStr ''clubMember''),
                     (''name'', fld (JObj formData) ''name''),
                     (''email'', fld (JObj formData) ''email''),
                     (''city'', fld (JObj formData) ''city''),
                     (''submittedAt'', JStr stamp),
                     (''status'', JStr ''pending'')]\<rparr>
             in (case r of
                   NetworkError m \<Rightarrow> (Failure m, [req])
                 | Reply status body \<Rightarrow>
                     if \<not> ok status
                     then (Failure (''Submission failed: '' @ show_nat status), [req])
                     else (case body of
                             Inl m \<Rightarrow> (Failure m, [req])
                           | Inr d \<Rightarrow> (Success d, [req])))))"

section \<open>The join-club form (main.js, JoinClubForm)\<close>

datatype ui = Alert string | FormReset

definition welcomeMessage :: string where
  "welcomeMessage =
     ''Welcome to NashfyPitStop! You'' @ [CHR 0x27] @
     ''ve successfully joined our community. We'' @ [CHR 0x27] @
     ''ll send you updates about upcoming events and races.''"

text \<open>
  \<^verbatim>\<open>handleSubmit(form)\<close>: what the user sees and the requests issued. \<open>sanity\<close> is
  \<open>None\<close> when the global client is undefined.
\<close>

definition handleSubmit ::
  "platform \<Rightarrow> SanityClient option \<Rightarrow> (string \<times> json) list \<Rightarrow> string \<Rightarrow> reply
     \<Rightarrow> ui list \<times> request list" where
  "handleSubmit P sanity formData stamp r =
     (case sanity of
        None \<Rightarrow> ([Alert welcomeMessage, FormReset], [])
      | Some c \<Rightarrow>
          if projectId c \<noteq> ''YOUR_PROJECT_ID''
          then (case submitJoinClubForm P c formData stamp r of
                  (result, reqs) \<Rightarrow>
                    if success result
                    then ([Alert welcomeMessage, FormReset], reqs)
                    else ([Alert welcomeMessage, FormReset], reqs))
          else ([Alert welcomeMessage, FormReset], []))"

section \<open>Weather (main.js, RealTimeData.loadWeather)\<close>

text \<open>
  The unit suffix of the weather text, as the file stores it: the bytes of the three
  characters after the temperature in both string literals.
\<close>

definition degC :: string where
  "degC = [CHR 0xC2, CHR 0xAC, CHR 0xE2, CHR 0x88, CHR 0x9E, CHR ''C'']"

definition loadWeather :: "platform \<Rightarrow> dom \<Rightarrow> reply \<Rightarrow> dom" where
  "loadWeather P d r =
     (if d ''weatherNairobi'' = None then d
      else (case r of
              NetworkError m \<Rightarrow> setText d ''weatherNairobi'' (''24'' @ degC)
            | Reply status body \<Rightarrow>
                (case body of
                   Inl m \<Rightarrow> setText d ''weatherNairobi'' (''24'' @ degC)
                 | Inr data \<Rightarrow>
                     (case opt (opt data ''current'') ''temperature_2m'' of
                        JNum t \<Rightarrow>
                          setText d ''weatherNairobi'' (numStr P (of_int (jsRound t)) @ degC)
                      | v \<Rightarrow> d))))"

section \<open>Dates of a race (main.js, RealTimeData)\<close>

text \<open>
  A Date is its time value: milliseconds since the epoch, or \<open>None\<close> for the NaN of an
  Invalid Date. \<open>newDate\<close> is \<^verbatim>\<open>new Date(v)\<close> with one argument.
\<close>

definition truncate :: "rat \<Rightarrow> int" where
  "truncate q = (if 0 \<le> q then \<lfloor>q\<rfloor> else \<lceil>q\<rceil>)"

definition timeClip :: "rat \<Rightarrow> int option" where
  "timeClip q = (if \<bar>q\<bar> \<le> 8640000000000000 then Some (truncate q) else None)"

fun newDate :: "platform \<Rightarrow> json \<Rightarrow> error + int option" where
  "newDate P JUndefined = Inr None"
| "newDate P JNull = Inr (Some 0)"
| "newDate P (JBool b) = Inr (Some (if b then 1 else 0))"
| "newDate P (JNum q) = Inr (timeClip q)"
| "newDate P (JStr s) = Inr (dateParse P s)"
| "newDate P (JArr xs) =
     (case toStringJS P (JArr xs) of Inl e \<Rightarrow> Inl e | Inr t \<Rightarrow> Inr (dateParse P t))"
| "newDate P (JObj kvs) =
     (case toStringJS P (JObj kvs) of Inl e \<Rightarrow> Inl e | Inr t \<Rightarrow> Inr (dateParse P t))"

text \<open>\<^verbatim>\<open>new Date(d + "T" + t)\<close>\<close>

definition newDateTime :: "platform \<Rightarrow> json \<Rightarrow> json \<Rightarrow> error + int option" where
  "newDateTime P d t =
     (case toStringJS P d of
        Inl e \<Rightarrow> Inl e
      | Inr a \<Rightarrow>
          (case toStringJS P t of
             Inl e \<Rightarrow> Inl e
           | Inr b \<Rightarrow> Inr (dateParse P (a @ ''T'' @ b))))"

text \<open>\<^verbatim>\<open>s.replace(pat, rep)\<close> with a string pattern: the first occurrence only.\<close>

fun replaceFirst :: "string \<Rightarrow> string \<Rightarrow> string \<Rightarrow> string" where
  "replaceFirst pat rep [] = (if pat = [] then rep else [])"
| "replaceFirst pat rep (c # cs) =
     (if take (length pat) (c # cs) = pat then rep @ drop (length pat) (c # cs)
      else c # replaceFirst pat rep cs)"

definition parseRaceDate :: "platform \<Rightarrow> json \<Rightarrow> error + int option" where
  "parseRaceDate P race =
     (if nullish race then Inl TypeError
      else if truthy (fld race ''date'') \<and> truthy (fld race ''time'')
        then newDateTime P (fld race ''date'') (fld race ''time'')
      else if truthy (fld race ''date'') then newDate P (fld race ''date'')
      else if truthy (fld race ''raceDate'') \<and> truthy (fld race ''raceTime'')
        then newDateTime P (fld race ''raceDate'') (fld race ''raceTime'')
      else if truthy (fld race ''raceDate'') then newDate P (fld race ''raceDate'')
      else if truthy (fld race ''startDate'') \<and> truthy (fld race ''startTime'')
        then newDateTime P (fld race ''startDate'') (fld race ''startTime'')
      else if truthy (fld race ''startDate'') then newDate P (fld race ''startDate'')
      else if truthy (fld race ''datetime'')
        then (case fld race ''datetime'' of
                JStr s \<Rightarrow> Inr (dateParse P (replaceFirst ''Z'' [] (replaceFirst ''+03:00'' [] s)))
              | v \<Rightarrow> Inl TypeError)
      else Inr (dateParse P ''2099-12-31''))"

subsection \<open>parseInt\<close>

definition isSpace :: "char \<Rightarrow> bool" where
  "isSpace c = (c \<in> set [CHR '' '', CHR 0x09, CHR 0x0A, CHR 0x0B, CHR 0x0C, CHR 0x0D])"

text \<open>
  The white space and line terminators beyond ASCII, in UTF-8: U+00A0, U+1680,
  U+2000 to U+200A, U+2028, U+2029, U+202F, U+205F, U+3000 and U+FEFF.
\<close>

definition wideSpaces :: "string list" where
  "wideSpaces =
     [[CHR 0xC2, CHR 0xA0], [CHR 0xE1, CHR 0x9A, CHR 0x80],
      [CHR 0xE2, CHR 0x80, CHR 0x80], [CHR 0xE2, CHR 0x80, CHR 0x81],
      [CHR 0xE2, CHR 0x80, CHR 0x82], [CHR 0xE2, CHR 0x80, CHR 0x83],
      [CHR 0xE2, CHR 0x80, CHR 0x84], [CHR 0xE2, CHR 0x80, CHR 0x85],
      [CHR 0xE2, CHR 0x80, CHR 0x86], [CHR 0xE2, CHR 0x80, CHR 0x87],
      [CHR 0xE2, CHR 0x80, CHR 0x88], [CHR 0xE2, CHR 0x80, CHR 0x89],
      [CHR 0xE2, CHR 0x80, CHR 0x8A], [CHR 0xE2, CHR 0x80, CHR 0xA8],
      [CHR 0xE2, CHR 0x80, CHR 0xA9], [CHR 0xE2, CHR 0x80, CHR 0xAF],
      [CHR 0xE2, CHR 0x81, CHR 0x9F], [CHR 0xE3, CHR 0x80, CHR 0x80],
      [CHR 0xEF, CHR 0xBB, CHR 0xBF]]"

function skipSpace :: "string \<Rightarrow> string" where
  "skipSpace s =
     (if s \<noteq> [] \<and> isSpace (hd s) then skipSpace (tl s)
      else (case find (\<lambda>w. take (length w) s = w) wideSpaces of
              Some w \<Rightarrow> if w \<noteq> [] \<and> length w \<le> length s then skipSpace (drop (length w) s) else s
            | None \<Rightarrow> s))"
  by pat_completeness auto
termination
  by (relation "measure length") (auto simp: neq_Nil_conv)

declare skipSpace.simps [simp del]

definition digitVal :: "char \<Rightarrow> nat option" where
  "digitVal c =
     (let n = (of_char c :: nat) in
      if 48 \<le> n \<and> n \<le> 57 then Some (n - 48)
      else if 97 \<le> n \<and> n \<le> 122 then Some (n - 87)
      else if 65 \<le> n \<and> n \<le> 90 then Some (n - 55)
      else None)"

definition isDigit :: "nat \<Rightarrow> char \<Rightarrow> bool" where
  "isDigit radix c = (case digitVal c of Some d \<Rightarrow> d < radix | None \<Rightarrow> False)"

definition digitsValue :: "nat \<Rightarrow> string \<Rightarrow> nat" where
  "digitsValue radix ds = foldl (\<lambda>acc c. acc * radix + the (digitVal c)) 0 ds"

text \<open>The Number of a parsed integer: exact up to \<open>2\<^sup>5\<^sup>3\<close>, rounded by the engine beyond.\<close>

definition integerNumber :: "platform \<Rightarrow> int \<Rightarrow> int" where
  "integerNumber P n = (if \<bar>n\<bar> \<le> 2 ^ 53 then n else bigInteger P n)"

text \<open>\<^verbatim>\<open>parseInt(s)\<close> with no radix given; \<open>None\<close> is NaN.\<close>

definition parseIntJS :: "platform \<Rightarrow> string \<Rightarrow> int option" where
  "parseIntJS P s =
     (let s1 = skipSpace s;
          neg = (take 1 s1 = ''-'');
          s2 = (if take 1 s1 = ''-'' \<or> take 1 s1 = ''+'' then drop 1 s1 else s1);
          hex = (take 2 s2 = ''0x'' \<or> take 2 s2 = ''0X'');
          radix = (if hex then 16 else 10);
          s3 = (if hex then drop 2 s2 else s2);
          ds = takeWhile (isDigit radix) s3
      in if ds = [] then None
         else Some (integerNumber P
                (if neg then - int (digitsValue radix ds) else int (digitsValue radix ds))))"

text \<open>\<^verbatim>\<open>new Date(v).getFullYear()\<close>\<close>

definition yearOfDate :: "platform \<Rightarrow> json \<Rightarrow> error + int option" where
  "yearOfDate P v =
     (case newDate P v of Inl e \<Rightarrow> Inl e | Inr d \<Rightarrow> Inr (map_option (fullYearOf P) d))"

definition extractYearFromRace :: "platform \<Rightarrow> int \<Rightarrow> json \<Rightarrow> error + int option" where
  "extractYearFromRace P now race =
     (if nullish race then Inl TypeError
      else if truthy (fld race ''date'') then yearOfDate P (fld race ''date'')
      else if truthy (fld race ''raceDate'') then yearOfDate P (fld race ''raceDate'')
      else if truthy (fld race ''startDate'') then yearOfDate P (fld race ''startDate'')
      else if truthy (fld race ''year'')
        then (case toStringJS P (fld race ''year'') of
                Inl e \<Rightarrow> Inl e
              | Inr t \<Rightarrow> Inr (parseIntJS P t))
      else Inr (Some (fullYearOf P now)))"

text \<open>
  \<^verbatim>\<open>races.filter(race => this.extractYearFromRace(race) === wanted)\<close>: an exception
  of the callback ends the filter.
\<close>

fun filterYear :: "platform \<Rightarrow> int \<Rightarrow> int \<Rightarrow> json list \<Rightarrow> error + json list" where
  "filterYear P now wanted [] = Inr []"
| "filterYear P now wanted (race # rs) =
     (case extractYearFromRace P now race of
        Inl e \<Rightarrow> Inl e
      | Inr y \<Rightarrow>
          (case filterYear P now wanted rs of
             Inl e \<Rightarrow> Inl e
           | Inr kept \<Rightarrow> Inr (if y = Some wanted then race # kept else kept)))"

section \<open>Acquiring the schedule (main.js, RealTimeData.loadRaceSchedule)\<close>

fun isArray :: "json \<Rightarrow> bool" where
  "isArray (JArr xs) = True"
| "isArray v = False"

fun elems :: "json \<Rightarrow> json list" where
  "elems (JArr xs) = xs"
| "elems v = []"

text \<open>
  Tier 1. \<open>backendData\<close> is the outcome of \<^verbatim>\<open>backend.getRaceSchedule(year, false)\<close>:
  a thrown error or the value returned.
\<close>

definition tier1 :: "platform \<Rightarrow> error + json \<Rightarrow> error + json" where
  "tier1 P backendData =
     (case backendData of
        Inl e \<Rightarrow> Inl e
      | Inr b \<Rightarrow>
          if truthy b \<and> truthy (fld b ''success'') \<and> truthy (fld b ''races'')
          then (case isPositive P (lengthOf (fld b ''races'')) of
                  Inl e \<Rightarrow> Inl e
                | Inr longer \<Rightarrow>
                    if longer then Inr (fld b ''races'')
                    else Inl (Error ''Backend returned empty or invalid data''))
          else Inl (Error ''Backend returned empty or invalid data''))"

text \<open>Tier 2: the shapes of the response, then the check of the names.\<close>

definition probe :: "json \<Rightarrow> error + json list" where
  "probe data =
     (if isArray data then Inr (elems data)
      else if nullish data then Inl TypeError
      else if truthy (fld data ''races'') \<and> isArray (fld data ''races'')
        then Inr (elems (fld data ''races''))
      else if truthy (fld data ''data'') \<and> isArray (fld data ''data'')
        then Inr (elems (fld data ''data''))
      else if truthy (fld data ''schedule'') \<and> isArray (fld data ''schedule'')
        then Inr (elems (fld data ''schedule''))
      else Inl (Error ''Invalid API response format''))"

text \<open>
  The shapes of a tier-2 response in the order they are tried, and the first of them
  that is an array.
\<close>

definition shapes :: "json \<Rightarrow> json list" where
  "shapes data = [data, opt data ''races'', opt data ''data'', opt data ''schedule'']"

definition firstArray :: "json \<Rightarrow> json list option" where
  "firstArray data = map_option elems (find isArray (shapes data))"

text \<open>
  Following the spec's words, for comparison: the first of the shapes that is a
  non-empty list.
\<close>

definition specFirstNonEmptyList :: "json \<Rightarrow> json list option" where
  "specFirstNonEmptyList data =
     map_option elems (find (\<lambda>v. isArray v \<and> elems v \<noteq> []) (shapes data))"

definition hasName :: "json \<Rightarrow> bool" where
  "hasName race =
     (let raceName = orElse (orElse (orElse (fld race ''raceName'') (fld race ''name''))
                        (fld race ''grandPrix'')) (fld race ''title'')
      in truthy raceName \<and> raceName \<noteq> JStr ''Unknown'' \<and> raceName \<noteq> JStr ''unknown'')"

text \<open>\<^verbatim>\<open>races.some(...)\<close>: stops at the first race with a name; a null entry before it throws.\<close>

fun hasValidData :: "json list \<Rightarrow> error + bool" where
  "hasValidData [] = Inr False"
| "hasValidData (race # rs) =
     (if nullish race then Inl TypeError
      else if hasName race then Inr True
      else hasValidData rs)"

definition tier2 :: "reply \<Rightarrow> error + json list" where
  "tier2 r =
     (case r of
        NetworkError m \<Rightarrow> Inl (Error m)
      | Reply status body \<Rightarrow>
          if \<not> ok status then Inl (Error (''HTTP error! status: '' @ show_nat status))
          else (case body of
                  Inl m \<Rightarrow> Inl (Error m)
                | Inr data \<Rightarrow>
                    (case probe data of
                       Inl e \<Rightarrow> Inl e
                     | Inr races \<Rightarrow>
                         if races \<noteq> []
                         then (case hasValidData races of
                                 Inl e \<Rightarrow> Inl e
                               | Inr valid \<Rightarrow>
                                   if valid then Inr races
                                   else Inl (Error ''API data appears invalid''))
                         else Inl (Error ''API returned empty array''))))"

text \<open>Tier 3: the bundled file.\<close>

definition tier3 :: "reply \<Rightarrow> error + json" where
  "tier3 r =
     (case r of
        NetworkError m \<Rightarrow> Inl (Error m)
      | Reply status body \<Rightarrow>
          if ok status
          then (case body of
                  Inl m \<Rightarrow> Inl (Error m)
                | Inr manualData \<Rightarrow>
                    if nullish manualData then Inl TypeError
                    else Inr (orElse (fld manualData ''races'') (JArr [])))
          else Inl (Error ''Manual data file not found''))"

text \<open>The nested try blocks: the races and the value of \<^verbatim>\<open>dataSource\<close>, or all three failed.\<close>

datatype acquired = Acquired json string | AllFailed

definition acquire :: "platform \<Rightarrow> error + json \<Rightarrow> reply \<Rightarrow> reply \<Rightarrow> acquired" where
  "acquire P backendData rapid manual =
     (case tier1 P backendData of
        Inr races \<Rightarrow> Acquired races ''backend-fastf1''
      | Inl backendError \<Rightarrow>
          (case tier2 rapid of
             Inr races \<Rightarrow> Acquired (JArr races) ''rapidapi''
           | Inl rapidApiError \<Rightarrow>
               (case tier3 manual of
                  Inr races \<Rightarrow> Acquired races ''manual-json''
                | Inl manualError \<Rightarrow> AllFailed)))"

section \<open>Rendering the schedule (main.js, RealTimeData.renderSchedule)\<close>

text \<open>The fields of one card, resolved from the shapes a source may use.\<close>

definition resolveName :: "json \<Rightarrow> nat \<Rightarrow> json" where
  "resolveName race index =
     orElse (orElse (orElse (orElse (orElse (fld race ''raceName'') (fld race ''name''))
       (fld race ''grandPrix'')) (fld race ''title'')) (fld race ''circuit''))
       (JStr (''Race '' @ show_nat (index + 1)))"

definition resolveCountry :: "json \<Rightarrow> json" where
  "resolveCountry race =
     orElse (orElse (orElse (orElse (fld race ''country'')
       (opt (opt (fld race ''Circuit'') ''Location'') ''country''))
       (opt (fld race ''location'') ''country'')) (fld race ''location''))
       (JStr ''Unknown'')"

definition resolveLocality :: "json \<Rightarrow> json" where
  "resolveLocality race =
     orElse (orElse (orElse (orElse (orElse (fld race ''locality'')
       (opt (opt (fld race ''Circuit'') ''Location'') ''locality''))
       (opt (fld race ''location'') ''city'')) (opt (fld race ''track'') ''location''))
       (fld race ''circuit'')) (JStr [])"

definition resolveRound :: "json \<Rightarrow> nat \<Rightarrow> json" where
  "resolveRound race index =
     orElse (orElse (fld race ''round'') (fld race ''roundNumber'')) (JNum (of_nat (index + 1)))"

record raceEvent =
  evRound :: json
  evName :: json
  evCountry :: json
  evLocality :: json

definition normalizeEvent :: "json \<Rightarrow> nat \<Rightarrow> error + raceEvent" where
  "normalizeEvent race index =
     (if nullish race then Inl TypeError
      else Inr \<lparr>evRound = resolveRound race index, evName = resolveName race index,
                evCountry = resolveCountry race, evLocality = resolveLocality race\<rparr>)"

text \<open>
  An event in canonical shape, after the spec's data model of a race event: the four
  resolved fields under the names \<open>round\<close>, \<open>name\<close>, \<open>country\<close> and \<open>locality\<close>.
\<close>

definition canonical :: "raceEvent \<Rightarrow> json" where
  "canonical e =
     JObj [(''round'', evRound e), (''name'', evName e), (''country'', evCountry e),
           (''locality'', evLocality e)]"

text \<open>A card: the texts the template of \<^verbatim>\<open>renderSchedule\<close> prints, and the date.\<close>

record raceCard =
  cardRound :: string
  cardStatus :: string
  cardCountry :: string
  cardLocality :: string
  cardName :: string
  cardDate :: "int option"

text \<open>\<^verbatim>\<open>raceDate < now\<close> and \<^verbatim>\<open>raceDate > now\<close>; a comparison with NaN is false.\<close>

definition before :: "int option \<Rightarrow> int \<Rightarrow> bool" where
  "before d now = (case d of Some t \<Rightarrow> t < now | None \<Rightarrow> False)"

definition after :: "int option \<Rightarrow> int \<Rightarrow> bool" where
  "after d now = (case d of Some t \<Rightarrow> now < t | None \<Rightarrow> False)"

text \<open>
  The comparator \<^verbatim>\<open>dateA - dateB\<close>: a NaN result counts as \<open>+0\<close> to the sort.
  The sort itself is a stable insertion sort, which is what every stable sort computes
  when the comparator is consistent, that is when every date is valid. With an Invalid
  Date in the list the comparator is not consistent and the language leaves the order
  to the engine; the general statements about the order below are for valid dates.
\<close>

definition compareDates :: "int option \<Rightarrow> int option \<Rightarrow> int" where
  "compareDates a b = (case a of None \<Rightarrow> 0 | Some x \<Rightarrow> (case b of None \<Rightarrow> 0 | Some y \<Rightarrow> x - y))"

fun insertRace :: "int option \<times> json \<Rightarrow> (int option \<times> json) list \<Rightarrow> (int option \<times> json) list" where
  "insertRace x [] = [x]"
| "insertRace x (y # ys) =
     (if compareDates (fst x) (fst y) \<le> 0 then x # y # ys else y # insertRace x ys)"

definition sortRaces :: "(int option \<times> json) list \<Rightarrow> (int option \<times> json) list" where
  "sortRaces ks = foldr insertRace ks []"

text \<open>Each race with its parsed date; the first race whose date cannot be read throws.\<close>

fun keyed :: "platform \<Rightarrow> json list \<Rightarrow> error + (int option \<times> json) list" where
  "keyed P [] = Inr []"
| "keyed P (race # rs) =
     (case parseRaceDate P race of
        Inl e \<Rightarrow> Inl e
      | Inr d \<Rightarrow> (case keyed P rs of Inl e \<Rightarrow> Inl e | Inr ks \<Rightarrow> Inr ((d, race) # ks)))"

text \<open>
  The card of one race: the template converts the round, the country, the locality
  (when it is truthy) and the name to strings, and any of these conversions may throw.
\<close>

definition cardOf :: "platform \<Rightarrow> int \<Rightarrow> nat \<Rightarrow> int option \<times> json \<Rightarrow> error + raceCard" where
  "cardOf P now index k =
     (case toStringJS P (resolveRound (snd k) index) of
        Inl e \<Rightarrow> Inl e
      | Inr roundText \<Rightarrow>
     (case toStringJS P (resolveCountry (snd k)) of
        Inl e \<Rightarrow> Inl e
      | Inr country \<Rightarrow>
     (case (if truthy (resolveLocality (snd k)) then toStringJS P (resolveLocality (snd k))
            else Inr []) of
        Inl e \<Rightarrow> Inl e
      | Inr locality \<Rightarrow>
     (case toStringJS P (resolveName (snd k) index) of
        Inl e \<Rightarrow> Inl e
      | Inr raceName \<Rightarrow>
          Inr \<lparr>cardRound = roundText,
               cardStatus = (if before (fst k) now then ''Done'' else ''Upcoming''),
               cardCountry = country, cardLocality = locality, cardName = raceName,
               cardDate = fst k\<rparr>))))"

fun cardsFrom :: "platform \<Rightarrow> int \<Rightarrow> nat \<Rightarrow> (int option \<times> json) list \<Rightarrow> error + raceCard list" where
  "cardsFrom P now index [] = Inr []"
| "cardsFrom P now index (k # rest) =
     (case cardOf P now index k of
        Inl e \<Rightarrow> Inl e
      | Inr c \<Rightarrow>
          (case cardsFrom P now (Suc index) rest of
             Inl e \<Rightarrow> Inl e
           | Inr cs \<Rightarrow> Inr (c # cs)))"

text \<open>
  \<^verbatim>\<open>renderSchedule(races, year)\<close> when \<^verbatim>\<open>#scheduleList\<close> exists: the array as
  sorted in place, and the cards appended in that order. An exception of the comparator
  or of a template ends it.
\<close>

definition renderSchedule :: "platform \<Rightarrow> int \<Rightarrow> json list \<Rightarrow> error + json list \<times> raceCard list" where
  "renderSchedule P now races =
     (case keyed P races of
        Inl e \<Rightarrow> Inl e
      | Inr ks \<Rightarrow>
          (case cardsFrom P now 0 (sortRaces ks) of
             Inl e \<Rightarrow> Inl e
           | Inr cards \<Rightarrow> Inr (map snd (sortRaces ks), cards)))"

text \<open>
  No object anywhere inside the value has an own property \<^verbatim>\<open>toString\<close>: every part
  of it can be converted to a string.
\<close>

fun tame :: "json \<Rightarrow> bool" where
  "tame (JArr xs) = list_all tame xs"
| "tame (JObj kvs) = (map_of kvs ''toString'' = None \<and> list_all (\<lambda>kv. tame (snd kv)) kvs)"
| "tame v = True"

text \<open>
  Events that can be read without an exception: not null, every part convertible, and
  a \<open>datetime\<close> that is a string where it is the field consulted.
\<close>

definition readable :: "json \<Rightarrow> bool" where
  "readable race =
     (\<not> nullish race \<and> tame race
      \<and> (truthy (fld race ''date'') \<or> truthy (fld race ''raceDate'')
         \<or> truthy (fld race ''startDate'') \<or> \<not> truthy (fld race ''datetime'')
         \<or> (case fld race ''datetime'' of JStr s \<Rightarrow> True | v \<Rightarrow> False)))"

text \<open>Every race of the list has a valid date; the dates ascend along the list.\<close>

definition allDated :: "(int option \<times> json) list \<Rightarrow> bool" where
  "allDated ks = list_all (\<lambda>k. fst k \<noteq> None) ks"

definition ascending :: "(int option \<times> json) list \<Rightarrow> bool" where
  "ascending ks = sorted_wrt (\<lambda>a b. the (fst a) \<le> the (fst b)) ks"

text \<open>The races a tier delivered are an array of events that can be read.\<close>

definition wellFormed :: "acquired \<Rightarrow> bool" where
  "wellFormed a =
     (case a of
        AllFailed \<Rightarrow> True
      | Acquired rs src \<Rightarrow> isArray rs \<and> list_all readable (elems rs))"

definition mockRaces :: "json list" where
  "mockRaces =
     [JObj [(''round'', JNum 1), (''name'', JStr ''Bahrain Grand Prix''),
            (''country'', JStr ''Bahrain''), (''date'', JStr ''2025-03-09T15:00:00Z'')],
      JObj [(''round'', JNum 2), (''name'', JStr ''Saudi Arabian Grand Prix''),
            (''country'', JStr ''Saudi Arabia''), (''date'', JStr ''2025-03-23T17:00:00Z'')],
      JObj [(''round'', JNum 3), (''name'', JStr ''Australian Grand Prix''),
            (''country'', JStr ''Australia''), (''date'', JStr ''2025-04-06T06:00:00Z'')]]"

text \<open>
  What \<^verbatim>\<open>#scheduleList\<close> holds at the end: the cards of the schedule, one card for
  each mock race, or the message that no race was found.
\<close>

datatype view = Cards "raceCard list" | MockCards "json list" | NoRacesFound

text \<open>
  The end of \<^verbatim>\<open>loadRaceSchedule\<close>. After a tier has succeeded: the variables
  \<^verbatim>\<open>races\<close> and \<^verbatim>\<open>dataSource\<close>, the view (\<open>None\<close>: there is no
  \<^verbatim>\<open>#scheduleList\<close> and nothing is shown), and whether
  \<^verbatim>\<open>startRaceCountdown(races)\<close> was called. After all three have failed: the
  early return behind \<^verbatim>\<open>renderMockSchedule()\<close>, with the view it leaves.
\<close>

record loaded =
  finalRaces :: json
  dataSource :: string
  shown :: "view option"
  countdownStarted :: bool

datatype ending = Finished loaded | FellBack "view option"

definition loadRaceSchedule ::
  "platform \<Rightarrow> int \<Rightarrow> bool \<Rightarrow> int \<Rightarrow> error + json \<Rightarrow> reply \<Rightarrow> reply \<Rightarrow> error + ending" where
  "loadRaceSchedule P now hasList year backendData rapid manual =
     (case acquire P backendData rapid manual of
        AllFailed \<Rightarrow>
          Inr (FellBack (if hasList then Some (MockCards mockRaces) else None))
      | Acquired rs src \<Rightarrow>
          (case (if src = ''rapidapi'' \<or> src = ''manual-json''
                 then (case rs of
                         JArr xs \<Rightarrow>
                           (case (if year \<noteq> fullYearOf P now
                                  then filterYear P now year xs
                                  else filterYear P now (fullYearOf P now) xs) of
                              Inl e \<Rightarrow> Inl e
                            | Inr kept \<Rightarrow> Inr (JArr kept))
                       | v \<Rightarrow> Inl TypeError)
                 else Inr rs) of
             Inl e \<Rightarrow> Inl e
           | Inr filtered \<Rightarrow>
               (case isPositive P (lengthOf filtered) of
                  Inl e \<Rightarrow> Inl e
                | Inr longer \<Rightarrow>
               if longer
               then (if hasList
                     then (case filtered of
                             JArr xs \<Rightarrow>
                               (case renderSchedule P now xs of
                                  Inl e \<Rightarrow> Inl e
                                | Inr (ordered, cards) \<Rightarrow>
                                    Inr (Finished \<lparr>finalRaces = JArr ordered, dataSource = src,
                                         shown = Some (Cards cards),
                                         countdownStarted = (year = fullYearOf P now)\<rparr>))
                           | v \<Rightarrow> Inl TypeError)
                     else Inr (Finished \<lparr>finalRaces = filtered, dataSource = src, shown = None,
                               countdownStarted = (year = fullYearOf P now)\<rparr>))
               else Inr (Finished \<lparr>finalRaces = filtered, dataSource = src,
                         shown = (if hasList then Some NoRacesFound else None),
                         countdownStarted = False\<rparr>))))"

section \<open>The countdown (main.js, RealTimeData)\<close>

text \<open>
  The page: the document, the interval timers that are running (handle and callback),
  the field \<^verbatim>\<open>this.countdownInterval\<close> (\<open>None\<close>: undefined) and the next handle
  \<^verbatim>\<open>setInterval\<close> will return. Handles are positive. Class changes of an
  element are not part of the state; its text is.
\<close>

datatype timer = Clock | LocalCountdown "int option" | BackendCountdown json

record page =
  doc :: dom
  timers :: "(nat \<times> timer) list"
  countdownInterval :: "nat option"
  nextId :: nat

definition page0 :: "dom \<Rightarrow> page" where
  "page0 d = \<lparr>doc = d, timers = [], countdownInterval = None, nextId = 1\<rparr>"

definition setInterval :: "timer \<Rightarrow> page \<Rightarrow> page" where
  "setInterval cb s = s\<lparr>timers := timers s @ [(nextId s, cb)], nextId := Suc (nextId s)\<rparr>"

definition clearInterval :: "nat \<Rightarrow> page \<Rightarrow> page" where
  "clearInterval i s = s\<lparr>timers := filter (\<lambda>t. fst t \<noteq> i) (timers s)\<rparr>"

text \<open>\<^verbatim>\<open>if (this.countdownInterval) clearInterval(this.countdownInterval)\<close>\<close>

definition clearStored :: "page \<Rightarrow> page" where
  "clearStored s =
     (case countdownInterval s of
        None \<Rightarrow> s
      | Some i \<Rightarrow> if i \<noteq> 0 then clearInterval i s else s)"

definition countdownTimers :: "page \<Rightarrow> (nat \<times> timer) list" where
  "countdownTimers s = filter (\<lambda>t. snd t \<noteq> Clock) (timers s)"

definition pad2 :: "string \<Rightarrow> string" where
  "pad2 t = replicate (2 - length t) CHR ''0'' @ t"

text \<open>The text the local \<^verbatim>\<open>update\<close> writes for \<^verbatim>\<open>diff = targetDate - now\<close>.\<close>

definition countdownText :: "int option \<Rightarrow> string" where
  "countdownText diff =
     (case diff of
        None \<Rightarrow> ''NaN:NaN''
      | Some d \<Rightarrow>
          if d \<le> 0 then ''RACE DAY!''
          else
            let days = d div (1000 * 60 * 60 * 24);
                hours = (d mod (1000 * 60 * 60 * 24)) div (1000 * 60 * 60);
                minutes = (d mod (1000 * 60 * 60)) div (1000 * 60);
                seconds = (d mod (1000 * 60)) div 1000
            in if days > 0
               then show_int days @ ''d '' @ show_int hours @ ''h '' @ show_int minutes @ ''m''
               else if hours > 0
               then show_int hours @ ''h '' @ show_int minutes @ ''m '' @ show_int seconds @ ''s''
               else pad2 (show_int minutes) @ '':'' @ pad2 (show_int seconds))"

definition dateDiff :: "int option \<Rightarrow> int \<Rightarrow> int option" where
  "dateDiff d now = (case d of None \<Rightarrow> None | Some t \<Rightarrow> Some (t - now))"

definition updateCountdown :: "int \<Rightarrow> int option \<Rightarrow> json \<Rightarrow> page \<Rightarrow> page" where
  "updateCountdown now targetDate raceName s =
     (if doc s ''nextRaceCountdown'' = None then s
      else
        let s1 = clearStored s;
            s2 = s1\<lparr>doc := setText (doc s1) ''nextRaceCountdown''
                               (countdownText (dateDiff targetDate now))\<rparr>
        in (setInterval (LocalCountdown targetDate) s2)\<lparr>countdownInterval := Some (nextId s2)\<rparr>)"

text \<open>
  \<^verbatim>\<open>updateCountdownFromBackend(countdown, race)\<close>. Its only caller is
  \<^verbatim>\<open>startRaceCountdown\<close>, with a truthy \<open>race\<close> and after the same name has been
  written to the same element, so that the conversion of the name here cannot throw:
  the text is \<open>textJS\<close> of it. Its first \<^verbatim>\<open>update()\<close> only sends a request; the
  answer is handled by \<open>backendSettled\<close>.
\<close>

definition updateCountdownFromBackend :: "platform \<Rightarrow> json \<Rightarrow> json \<Rightarrow> page \<Rightarrow> page" where
  "updateCountdownFromBackend P countdown race s =
     (if doc s ''nextRaceCountdown'' = None then s
      else
        let s1 = s\<lparr>doc := setText (doc s) ''nextRaceName''
                   (textJS P (orElse (fld race ''raceName'') (JStr ''Next Race''))
                      @ '' - Countdown'')\<rparr>;
            s2 = clearStored s1
        in (setInterval (BackendCountdown race) s2)\<lparr>countdownInterval := Some (nextId s2)\<rparr>)"

text \<open>The text a backend \<^verbatim>\<open>update\<close> writes for a countdown that has not run out.\<close>

definition backendText :: "platform \<Rightarrow> json \<Rightarrow> error + string" where
  "backendText P cd =
     (case isPositive P (fld cd ''days'') of
        Inl e \<Rightarrow> Inl e
      | Inr manyDays \<Rightarrow>
          if manyDays
          then template P [(fld cd ''days'', ''d ''), (fld cd ''hours'', ''h ''),
                           (fld cd ''minutes'', ''m'')]
          else (case isPositive P (fld cd ''hours'') of
                  Inl e \<Rightarrow> Inl e
                | Inr manyHours \<Rightarrow>
                    if manyHours
                    then template P [(fld cd ''hours'', ''h ''), (fld cd ''minutes'', ''m ''),
                                     (fld cd ''seconds'', ''s'')]
                    else template P [(fld cd ''minutes'', ''m ''), (fld cd ''seconds'', ''s'')]))"

text \<open>
  The \<^verbatim>\<open>catch\<close> handler of a backend \<^verbatim>\<open>update()\<close>: the local countdown to
  \<^verbatim>\<open>race.datetime\<close>. An exception inside it is lost and changes nothing.
\<close>

definition catchHandler :: "platform \<Rightarrow> int \<Rightarrow> json \<Rightarrow> page \<Rightarrow> page" where
  "catchHandler P now race s =
     (if nullish race then s
      else if truthy (fld race ''datetime'')
      then (case newDate P (fld race ''datetime'') of
              Inl e \<Rightarrow> s
            | Inr targetDate \<Rightarrow> updateCountdown now targetDate (fld race ''raceName'') s)
      else s)"

text \<open>
  The answer to the request of one backend \<^verbatim>\<open>update()\<close> for the captured \<open>race\<close>:
  the \<^verbatim>\<open>then\<close> handler on a value, the \<^verbatim>\<open>catch\<close> handler on a rejection
  and on an exception of the \<^verbatim>\<open>then\<close> handler, with what that had written before.
\<close>

definition backendSettled :: "platform \<Rightarrow> int \<Rightarrow> json \<Rightarrow> error + json \<Rightarrow> page \<Rightarrow> page" where
  "backendSettled P now race answer s =
     (case answer of
        Inl e \<Rightarrow> catchHandler P now race s
      | Inr nextRaceData \<Rightarrow>
          if truthy nextRaceData \<and> truthy (fld nextRaceData ''success'')
             \<and> truthy (fld nextRaceData ''countdown'')
          then
            let cd = fld nextRaceData ''countdown''
            in (case nonPositive P (fld cd ''total_seconds'') of
                  Inl e \<Rightarrow> catchHandler P now race s
                | Inr over \<Rightarrow>
                    if over
                    then
                      let s1 = s\<lparr>doc := setText (doc s) ''nextRaceCountdown'' ''RACE DAY!''\<rparr>
                      in if doc s ''nextRaceName'' = None then s1
                         else if nullish race then catchHandler P now race s1
                         else (case toStringJS P (orElse (fld race ''raceName'') (JStr ''Race'')) of
                                 Inl e \<Rightarrow> catchHandler P now race s1
                               | Inr t \<Rightarrow>
                                   s1\<lparr>doc := setText (doc s1) ''nextRaceName'' (t @ '' - LIVE!'')\<rparr>)
                    else (case backendText P cd of
                            Inl e \<Rightarrow> catchHandler P now race s
                          | Inr t \<Rightarrow> s\<lparr>doc := setText (doc s) ''nextRaceCountdown'' t\<rparr>))
          else s)"

text \<open>\<^verbatim>\<open>startLocalTime\<close> starts the clock's timer and keeps no handle.\<close>

definition startLocalTime :: "page \<Rightarrow> page" where
  "startLocalTime s = setInterval Clock s"

text \<open>
  What can happen to the timers of a page, in any order: the clock starts, either
  countdown function is called, or a backend request of an \<^verbatim>\<open>update()\<close> settles.
\<close>

datatype event =
    StartLocalTime
  | UpdateCountdown int "int option" json
  | UpdateCountdownFromBackend json json
  | BackendSettled int json "error + json"

fun step :: "platform \<Rightarrow> page \<Rightarrow> event \<Rightarrow> page" where
  "step P s StartLocalTime = startLocalTime s"
| "step P s (UpdateCountdown now targetDate raceName) = updateCountdown now targetDate raceName s"
| "step P s (UpdateCountdownFromBackend countdown race) = updateCountdownFromBackend P countdown race s"
| "step P s (BackendSettled now race answer) = backendSettled P now race answer s"

definition run :: "platform \<Rightarrow> event list \<Rightarrow> page \<Rightarrow> page" where
  "run P evs s = foldl (step P) s evs"

text \<open>
  The invariant of the timers: the countdown timers that run are exactly the one whose
  handle \<open>countdownInterval\<close> holds, and handles are positive and not yet used.
\<close>

definition timersOk :: "page \<Rightarrow> bool" where
  "timersOk s =
     (map fst (countdownTimers s) = (case countdownInterval s of None \<Rightarrow> [] | Some i \<Rightarrow> [i])
      \<and> list_all (\<lambda>t. 0 < fst t \<and> fst t < nextId s) (timers s)
      \<and> 0 < nextId s)"

subsection \<open>Choosing the race to count down to (startRaceCountdown)\<close>

text \<open>The sort and the \<^verbatim>\<open>find\<close>: the first race of the sorted array whose date is after now.\<close>

definition selectNextRace :: "platform \<Rightarrow> int \<Rightarrow> json list \<Rightarrow> error + (int option \<times> json) option" where
  "selectNextRace P now races =
     (case keyed P races of
        Inl e \<Rightarrow> Inl e
      | Inr ks \<Rightarrow> Inr (find (\<lambda>r. after (fst r) now) (sortRaces ks)))"

definition seasonEnded :: "page \<Rightarrow> page" where
  "seasonEnded s =
     s\<lparr>doc := setText (setText (doc s) ''nextRaceCountdown'' ''Season Ended'')
                ''nextRaceName'' ''No upcoming races''\<rparr>"

text \<open>
  \<^verbatim>\<open>el.textContent = v\<close> behind \<^verbatim>\<open>if (el)\<close>, for a value that is neither null nor
  undefined: the conversion of \<open>v\<close> to a string may throw.
\<close>

definition writeText :: "platform \<Rightarrow> string \<Rightarrow> json \<Rightarrow> string \<Rightarrow> page \<Rightarrow> error + page" where
  "writeText P i v suffix s =
     (if doc s i = None then Inr s
      else (case toStringJS P v of
              Inl e \<Rightarrow> Inl e
            | Inr t \<Rightarrow> Inr (s\<lparr>doc := setText (doc s) i (t @ suffix)\<rparr>)))"

text \<open>The name the local countdown shows for a race.\<close>

definition countdownName :: "json \<Rightarrow> json" where
  "countdownName nextRace =
     orElse (orElse (orElse (orElse (fld nextRace ''raceName'') (fld nextRace ''name''))
       (fld nextRace ''grandPrix'')) (fld nextRace ''title'')) (JStr ''Next Race'')"

text \<open>The part of \<^verbatim>\<open>startRaceCountdown\<close> behind the try block: it is not guarded.\<close>

definition localCountdown :: "platform \<Rightarrow> int \<Rightarrow> int \<Rightarrow> json list \<Rightarrow> page \<Rightarrow> error + page" where
  "localCountdown P now later races s =
     (case selectNextRace P now races of
        Inl e \<Rightarrow> Inl e
      | Inr None \<Rightarrow> Inr (seasonEnded s)
      | Inr (Some (targetDate, nextRace)) \<Rightarrow>
          if truthy nextRace
          then (case writeText P ''nextRaceName'' (countdownName nextRace) '' - Countdown'' s of
                  Inl e \<Rightarrow> Inl e
                | Inr s1 \<Rightarrow> Inr (updateCountdown later targetDate (countdownName nextRace) s1))
          else Inr (seasonEnded s))"

text \<open>
  The condition under which the backend's own countdown is used and the races are not:
  the answer holds a race and a countdown, the name of the race can be written, and
  \<^verbatim>\<open>countdown.total_seconds > 0\<close>.
\<close>

definition backendSupplies :: "platform \<Rightarrow> error + json \<Rightarrow> page \<Rightarrow> bool" where
  "backendSupplies P answer s =
     (case answer of
        Inl e \<Rightarrow> False
      | Inr nextRaceData \<Rightarrow>
          truthy nextRaceData \<and> truthy (fld nextRaceData ''success'')
          \<and> truthy (fld nextRaceData ''race'')
          \<and> (doc s ''nextRaceName'' = None
               \<or> convertible (orElse (fld (fld nextRaceData ''race'') ''raceName'')
                                (JStr ''Next Race'')))
          \<and> truthy (fld nextRaceData ''countdown'')
          \<and> isPositive P (fld (fld nextRaceData ''countdown'') ''total_seconds'') = Inr True)"

text \<open>
  \<^verbatim>\<open>startRaceCountdown(races)\<close>. \<open>answer\<close> is the outcome of
  \<^verbatim>\<open>backend.getNextRace()\<close>; \<open>now\<close> is read on entry, \<open>later\<close> when the countdown
  text is first written. An exception inside the try block is caught and the races
  decide, with what had been written before it.
\<close>

definition startRaceCountdown ::
  "platform \<Rightarrow> int \<Rightarrow> int \<Rightarrow> error + json \<Rightarrow> json list \<Rightarrow> page \<Rightarrow> error + page" where
  "startRaceCountdown P now later answer races s =
     (case answer of
        Inl e \<Rightarrow> localCountdown P now later races s
      | Inr nextRaceData \<Rightarrow>
          if truthy nextRaceData \<and> truthy (fld nextRaceData ''success'')
             \<and> truthy (fld nextRaceData ''race'')
          then
            let race = fld nextRaceData ''race'';
                countdown = fld nextRaceData ''countdown''
            in (case writeText P ''nextRaceName''
                       (orElse (fld race ''raceName'') (JStr ''Next Race'')) [] s of
                  Inl e \<Rightarrow> localCountdown P now later races s
                | Inr s1 \<Rightarrow>
                    if truthy countdown
                    then (case isPositive P (fld countdown ''total_seconds'') of
                            Inl e \<Rightarrow> localCountdown P now later races s1
                          | Inr running \<Rightarrow>
                              if running
                              then Inr (updateCountdownFromBackend P countdown race s1)
                              else localCountdown P now later races s1)
                    else localCountdown P now later races s1)
          else localCountdown P now later races s)"

section \<open>A reference platform\<close>

text \<open>
  A browser in the UTC zone, for the examples. On the date strings the examples use,
  its time values are those \<^verbatim>\<open>Date.parse\<close> gives; every other string is an
  Invalid Date. The year of a time value is that of the proleptic Gregorian calendar.
  Its numbers in strings are the unsigned decimal integers, and an integer beyond
  \<open>2\<^sup>5\<^sup>3\<close> becomes the nearest double. The examples print integers only.
\<close>

definition refDates :: "(string \<times> int) list" where
  "refDates =
     [(''2024-03-02'', 1709337600000),
      (''2025-03-09'', 1741478400000),
      (''2025-03-09T15:00:00Z'', 1741532400000),
      (''2025-03-16'', 1742083200000),
      (''2025-03-23T17:00:00'', 1742749200000),
      (''2025-03-23T17:00:00Z'', 1742749200000),
      (''2025-04-06T06:00:00Z'', 1743919200000),
      (''2025-05-04'', 1746316800000),
      (''2099-12-31'', 4102358400000)]"

definition yearFromDays :: "int \<Rightarrow> int" where
  "yearFromDays z0 =
     (let z = z0 + 719468;
          era = z div 146097;
          doe = z - era * 146097;
          yoe = (doe - doe div 1460 + doe div 36524 - doe div 146096) div 365;
          doy = doe - (365 * yoe + yoe div 4 - yoe div 100);
          mp = (5 * doy + 2) div 153
      in yoe + era * 400 + (if mp < 10 then 0 else 1))"

text \<open>The nearest double of an integer, a tie going to the even mantissa.\<close>

function shift53 :: "nat \<Rightarrow> nat" where
  "shift53 n = (if n < 2 ^ 53 then 0 else Suc (shift53 (n div 2)))"
  by pat_completeness auto
termination
  by (relation "measure id") auto

declare shift53.simps [simp del]

definition nearestDouble :: "int \<Rightarrow> int" where
  "nearestDouble n =
     (let m = nat \<bar>n\<bar>;
          k = shift53 m;
          q = m div 2 ^ k;
          r = m mod 2 ^ k;
          v = (if 2 ^ k < 2 * r \<or> (2 * r = 2 ^ k \<and> odd q) then q + 1 else q) * 2 ^ k
      in if n < 0 then - int v else int v)"

definition refPlatform :: platform where
  "refPlatform =
     \<lparr>dateParse = map_of refDates,
      fullYearOf = (\<lambda>t. yearFromDays (t div 86400000)),
      numberText = (\<lambda>q. ''NaN''),
      stringToNumber =
        (\<lambda>s. if s = [] then Some 0
             else if list_all (isDigit 10) s then Some (of_nat (digitsValue 10 s))
             else None),
      bigInteger = nearestDouble\<rparr>"

text \<open>Data of the examples.\<close>

definition raceMay :: json where
  "raceMay = JObj [(''raceName'', JStr ''Miami Grand Prix''), (''date'', JStr ''2025-05-04'')]"

definition raceTbd :: json where
  "raceTbd = JObj [(''raceName'', JStr ''Kenya Grand Prix''), (''date'', JStr ''TBD'')]"

definition raceMar :: json where
  "raceMar = JObj [(''raceName'', JStr ''Chinese Grand Prix''), (''date'', JStr ''2025-03-16'')]"

definition raceUndated :: json where
  "raceUndated = JObj [(''raceName'', JStr ''Kenya Grand Prix'')]"

definition miami :: json where
  "miami = JObj [(''raceName'', JStr ''Miami Grand Prix''), (''datetime'', JStr ''2025-05-04'')]"

definition race2024 :: json where
  "race2024 = JObj [(''raceName'', JStr ''Bahrain Grand Prix''), (''date'', JStr ''2024-03-02'')]"

definition bahrain :: json where
  "bahrain =
     JObj [(''raceName'', JStr ''Bahrain Grand Prix''),
           (''Circuit'', JObj [(''Location'', JObj [(''country'', JStr ''Bahrain'')])]),
           (''date'', JStr ''2025-03-09''), (''time'', JStr ''15:00:00Z'')]"

definition jeddah :: json where
  "jeddah = JObj [(''name'', JStr ''Saudi Arabian Grand Prix''),
                  (''datetime'', JStr ''2025-03-23T17:00:00Z'')]"

definition emptyThenData :: json where
  "emptyThenData = JObj [(''races'', JArr []), (''data'', JArr [raceMar])]"

definition backendAnswer :: json where
  "backendAnswer =
     JObj [(''success'', JBool True), (''race'', miami),
           (''countdown'', JObj [(''total_seconds'', JNum 3600)])]"

definition demoDoc :: dom where
  "demoDoc = [''nextRaceCountdown'' \<mapsto> ''--'', ''nextRaceName'' \<mapsto> ''--'',
              ''weatherNairobi'' \<mapsto> ''--'']"

definition demoEvents :: "event list" where
  "demoEvents =
     [StartLocalTime,
      UpdateCountdownFromBackend (JObj [(''total_seconds'', JNum 3600)]) miami,
      BackendSettled 1746310000000 miami (Inl (Error ''Failed to fetch'')),
      UpdateCountdown 1746310000000 (Some 1746316800000) (JStr ''Miami Grand Prix'')]"

section \<open>Theorems\<close>

subsection \<open>The join-club form\<close>

lemma submit_without_token:
  "\<not> truthy (writeToken c) \<Longrightarrow>
     submitJoinClubForm P c formData stamp r =
       (Failure ''Form submission requires backend setup'', [])"
  by (simp add: submitJoinClubForm_def)

lemma handleSubmit_ui: "fst (handleSubmit P sanity formData stamp r) = [Alert welcomeMessage, FormReset]"
  by (simp add: handleSubmit_def split: option.splits prod.splits)

text \<open>
  C8. While no write token is configured, \<open>submitJoinClubForm\<close> issues no request and
  returns a result whose success flag is false; \<open>handleSubmit\<close> all the same shows the
  welcome message and resets the form, and nothing else reaches the user.
\<close>

theorem join_without_token_reports_success:
  assumes "\<not> truthy (writeToken c)"
  shows "snd (submitJoinClubForm P c formData stamp r) = []
    \<and> \<not> success (fst (submitJoinClubForm P c formData stamp r))
    \<and> handleSubmit P (Some c) formData stamp r = ([Alert welcomeMessage, FormReset], [])"
  using assms
  by (simp add: submit_without_token handleSubmit_def)

theorem join_without_token_reports_success_witness:
  "\<not> truthy (writeToken \<lparr>projectId = ''j5jgcp4i'', writeUrl = ''u'', writeToken = JNull\<rparr>)
    \<and> submitJoinClubForm refPlatform \<lparr>projectId = ''j5jgcp4i'', writeUrl = ''u'', writeToken = JNull\<rparr>
         [(''name'', JStr ''Amina'')] ''2025-03-01T00:00:00.000Z'' (Reply 200 (Inr JNull))
       = (Failure ''Form submission requires backend setup'', [])
    \<and> handleSubmit refPlatform (Some \<lparr>projectId = ''j5jgcp4i'', writeUrl = ''u'', writeToken = JNull\<rparr>)
         [(''name'', JStr ''Amina'')] ''2025-03-01T00:00:00.000Z'' (Reply 200 (Inr JNull))
       = ([Alert welcomeMessage, FormReset], [])"
  using join_without_token_reports_success
    [of "\<lparr>projectId = ''j5jgcp4i'', writeUrl = ''u'', writeToken = JNull\<rparr>" refPlatform
        "[(''name'', JStr ''Amina'')]" "''2025-03-01T00:00:00.000Z''" "Reply 200 (Inr JNull)"]
  by (simp add: submitJoinClubForm_def)

subsection \<open>Weather\<close>

lemma weather_transport_error:
  "d ''weatherNairobi'' \<noteq> None \<Longrightarrow>
     loadWeather P d (NetworkError m) ''weatherNairobi'' = Some (''24'' @ degC)"
  by (simp add: loadWeather_def setText_def)

lemma weather_malformed_body:
  "d ''weatherNairobi'' \<noteq> None \<Longrightarrow>
     loadWeather P d (Reply status (Inl m)) ''weatherNairobi'' = Some (''24'' @ degC)"
  by (simp add: loadWeather_def setText_def)

lemma weather_success:
  "d ''weatherNairobi'' \<noteq> None \<Longrightarrow>
     opt (opt data ''current'') ''temperature_2m'' = JNum t \<Longrightarrow>
     loadWeather P d (Reply status (Inr data)) ''weatherNairobi''
       = Some (numStr P (of_int (jsRound t)) @ degC)"
  by (simp add: loadWeather_def setText_def)

lemma weather_not_numeric:
  "\<forall>t. opt (opt data ''current'') ''temperature_2m'' \<noteq> JNum t \<Longrightarrow>
     loadWeather P d (Reply status (Inr data)) = d"
  by (simp add: loadWeather_def split: json.splits)

text \<open>
  C9. The claim wants the fallback text shown for a response that lacks a numeric
  \<open>current.temperature_2m\<close>. On the error body the weather service sends, the element
  keeps the text it had: no fallback is written.
\<close>

theorem weather_without_temperature_keeps_text:
  "loadWeather refPlatform [''weatherNairobi'' \<mapsto> ''--'']
     (Reply 400 (Inr (JObj [(''error'', JBool True), (''reason'', JStr ''bad request'')])))
     ''weatherNairobi'' = Some ''--''"
  by (simp add: loadWeather_def opt_def)

subsection \<open>One countdown timer\<close>

lemma timersOk_page0: "timersOk (page0 d)"
  by (simp add: timersOk_def page0_def countdownTimers_def)

lemma timersOk_startLocalTime: "timersOk s \<Longrightarrow> timersOk (startLocalTime s)"
  by (auto simp: timersOk_def startLocalTime_def setInterval_def countdownTimers_def
      list_all_iff split: option.splits)

lemma countdownTimers_clearStored:
  "timersOk s \<Longrightarrow> countdownTimers (clearStored s) = []"
proof (cases "countdownInterval s")
  case None
  assume "timersOk s"
  with None show ?thesis
    by (simp add: timersOk_def clearStored_def)
next
  case (Some i)
  assume ok: "timersOk s"
  with Some have one: "map fst (countdownTimers s) = [i]"
    by (simp add: timersOk_def)
  then have "i \<in> fst ` set (timers s)"
    by (metis (no_types, lifting) countdownTimers_def filter_is_subset image_mono list.set_intros(1)
        list.set_map subsetD)
  with ok have "i \<noteq> 0"
    by (fastforce simp: timersOk_def list_all_iff)
  have "filter (\<lambda>t. fst t \<noteq> i) (countdownTimers s) = []"
  proof -
    have "\<forall>t \<in> set (countdownTimers s). fst t = i"
      using one by (metis (no_types, lifting) image_iff list.set_map list.simps(15) empty_set singletonD
          insert_iff)
    then show ?thesis by (simp add: filter_empty_conv)
  qed
  then have "countdownTimers (clearInterval i s) = []"
    by (simp add: countdownTimers_def clearInterval_def conj_commute)
  with Some \<open>i \<noteq> 0\<close> show ?thesis
    by (simp add: clearStored_def)
qed

lemma clearStored_keeps:
  "nextId (clearStored s) = nextId s" "doc (clearStored s) = doc s"
  by (auto simp: clearStored_def clearInterval_def split: option.splits)

lemma clearStored_list_all:
  "list_all Q (timers s) \<Longrightarrow> list_all Q (timers (clearStored s))"
  by (auto simp: clearStored_def clearInterval_def list_all_iff split: option.splits)

lemma restart_timer:
  assumes "countdownTimers s2 = []"
    "list_all (\<lambda>t. 0 < fst t \<and> fst t < nextId s2) (timers s2)" "0 < nextId s2" "cb \<noteq> Clock"
  shows "timersOk ((setInterval cb s2)\<lparr>countdownInterval := Some (nextId s2)\<rparr>)"
    and "countdownTimers ((setInterval cb s2)\<lparr>countdownInterval := Some (nextId s2)\<rparr>)
           = [(nextId s2, cb)]"
  using assms
  by (auto simp: timersOk_def setInterval_def countdownTimers_def list_all_iff)

lemma updateCountdown_replaces:
  assumes "timersOk s" "doc s ''nextRaceCountdown'' \<noteq> None"
  shows "timersOk (updateCountdown now targetDate raceName s)"
    and "countdownTimers (updateCountdown now targetDate raceName s)
           = [(nextId s, LocalCountdown targetDate)]"
proof -
  let ?s2 = "(clearStored s)\<lparr>doc := setText (doc (clearStored s)) ''nextRaceCountdown''
                (countdownText (dateDiff targetDate now))\<rparr>"
  have a: "countdownTimers ?s2 = []"
    using countdownTimers_clearStored [OF assms(1)] by (simp add: countdownTimers_def)
  have n: "nextId ?s2 = nextId s"
    by (simp add: clearStored_keeps)
  have "list_all (\<lambda>t. 0 < fst t \<and> fst t < nextId s) (timers (clearStored s))"
    using assms(1) by (intro clearStored_list_all) (simp add: timersOk_def)
  then have b: "list_all (\<lambda>t. 0 < fst t \<and> fst t < nextId ?s2) (timers ?s2)"
    by (simp add: n)
  have c: "0 < nextId ?s2"
    using assms(1) by (simp add: n timersOk_def)
  have u: "updateCountdown now targetDate raceName s
             = (setInterval (LocalCountdown targetDate) ?s2)\<lparr>countdownInterval := Some (nextId ?s2)\<rparr>"
    using assms(2) by (simp add: updateCountdown_def Let_def del: not_None_eq)
  show "timersOk (updateCountdown now targetDate raceName s)"
    unfolding u by (rule restart_timer(1) [OF a b c]) simp
  show "countdownTimers (updateCountdown now targetDate raceName s)
          = [(nextId s, LocalCountdown targetDate)]"
    unfolding u using restart_timer(2) [OF a b c, of "LocalCountdown targetDate"] n by simp
qed

lemma updateCountdownFromBackend_replaces:
  assumes "timersOk s" "doc s ''nextRaceCountdown'' \<noteq> None"
  shows "timersOk (updateCountdownFromBackend P countdown race s)"
    and "countdownTimers (updateCountdownFromBackend P countdown race s)
           = [(nextId s, BackendCountdown race)]"
proof -
  let ?s1 = "s\<lparr>doc := setText (doc s) ''nextRaceName''
               (textJS P (orElse (fld race ''raceName'') (JStr ''Next Race'')) @ '' - Countdown'')\<rparr>"
  have ok1: "timersOk ?s1"
    using assms(1) by (simp add: timersOk_def countdownTimers_def)
  have a: "countdownTimers (clearStored ?s1) = []"
    by (rule countdownTimers_clearStored [OF ok1])
  have n: "nextId (clearStored ?s1) = nextId s"
    by (simp add: clearStored_keeps)
  have "list_all (\<lambda>t. 0 < fst t \<and> fst t < nextId ?s1) (timers (clearStored ?s1))"
    using ok1 by (intro clearStored_list_all) (simp add: timersOk_def)
  then have b: "list_all (\<lambda>t. 0 < fst t \<and> fst t < nextId (clearStored ?s1))
                  (timers (clearStored ?s1))"
    by (simp add: clearStored_keeps)
  have c: "0 < nextId (clearStored ?s1)"
    using assms(1) by (simp add: n timersOk_def)
  have u: "updateCountdownFromBackend P countdown race s
             = (setInterval (BackendCountdown race) (clearStored ?s1))
                 \<lparr>countdownInterval := Some (nextId (clearStored ?s1))\<rparr>"
    using assms(2) by (simp add: updateCountdownFromBackend_def Let_def del: not_None_eq)
  show "timersOk (updateCountdownFromBackend P countdown race s)"
    unfolding u by (rule restart_timer(1) [OF a b c]) simp
  show "countdownTimers (updateCountdownFromBackend P countdown race s)
          = [(nextId s, BackendCountdown race)]"
    unfolding u using restart_timer(2) [OF a b c, of "BackendCountdown race"] n by simp
qed

lemma timersOk_updateCountdown:
  assumes "timersOk s"
  shows "timersOk (updateCountdown now targetDate raceName s)"
proof (cases "doc s ''nextRaceCountdown'' = None")
  case True
  with assms show ?thesis by (simp add: updateCountdown_def)
next
  case False
  with assms show ?thesis by (rule updateCountdown_replaces(1))
qed

lemma timersOk_updateCountdownFromBackend:
  assumes "timersOk s"
  shows "timersOk (updateCountdownFromBackend P countdown race s)"
proof (cases "doc s ''nextRaceCountdown'' = None")
  case True
  with assms show ?thesis by (simp add: updateCountdownFromBackend_def)
next
  case False
  with assms show ?thesis by (rule updateCountdownFromBackend_replaces(1))
qed

lemma timersOk_doc: "timersOk (s\<lparr>doc := d\<rparr>) = timersOk s"
  by (simp add: timersOk_def countdownTimers_def)

lemma timersOk_catchHandler: "timersOk s \<Longrightarrow> timersOk (catchHandler P now race s)"
  by (simp add: catchHandler_def timersOk_updateCountdown split: sum.splits)

lemma timersOk_backendSettled: "timersOk s \<Longrightarrow> timersOk (backendSettled P now race answer s)"
  by (cases answer)
    (auto simp: backendSettled_def Let_def timersOk_doc timersOk_catchHandler split: sum.splits)

lemma timersOk_step: "timersOk s \<Longrightarrow> timersOk (step P s e)"
  by (cases e)
    (simp_all add: timersOk_startLocalTime timersOk_updateCountdown
      timersOk_updateCountdownFromBackend timersOk_backendSettled)

lemma timersOk_run: "timersOk s \<Longrightarrow> timersOk (run P evs s)"
  unfolding run_def by (induction evs arbitrary: s) (simp_all add: timersOk_step)

lemma timersOk_at_most_one: "timersOk s \<Longrightarrow> length (countdownTimers s) \<le> 1"
proof -
  assume "timersOk s"
  then have "length (map fst (countdownTimers s)) \<le> 1"
    by (simp add: timersOk_def split: option.splits)
  then show ?thesis by simp
qed

text \<open>
  C10. Whatever has happened on the page since it was loaded, at most one countdown
  timer runs; and a call of \<open>updateCountdown\<close> or \<open>updateCountdownFromBackend\<close> that
  finds the countdown element leaves exactly one, the timer it has just started under a
  fresh handle: the stored one was cancelled first.
\<close>

theorem one_countdown_timer:
  "length (countdownTimers (run P evs (page0 d))) \<le> 1
    \<and> (doc (run P evs (page0 d)) ''nextRaceCountdown'' \<noteq> None \<longrightarrow>
         countdownTimers (updateCountdown now targetDate raceName (run P evs (page0 d)))
           = [(nextId (run P evs (page0 d)), LocalCountdown targetDate)]
       \<and> countdownTimers (updateCountdownFromBackend P countdown race (run P evs (page0 d)))
           = [(nextId (run P evs (page0 d)), BackendCountdown race)]
       \<and> nextId (run P evs (page0 d)) \<notin> fst ` set (timers (run P evs (page0 d))))"
proof -
  define s where "s = run P evs (page0 d)"
  have ok: "timersOk s"
    unfolding s_def by (rule timersOk_run [OF timersOk_page0])
  have fresh: "nextId s \<notin> fst ` set (timers s)"
    using ok by (auto simp: timersOk_def list_all_iff)
  show ?thesis
    unfolding s_def [symmetric]
    using timersOk_at_most_one [OF ok] updateCountdown_replaces(2) [OF ok]
      updateCountdownFromBackend_replaces(2) [OF ok] fresh
    by simp
qed

theorem one_countdown_timer_witness:
  "doc (run refPlatform demoEvents (page0 demoDoc)) ''nextRaceCountdown'' \<noteq> None
    \<and> length (countdownTimers (run refPlatform demoEvents (page0 demoDoc))) \<le> 1
    \<and> countdownTimers (updateCountdown 1746310000000 (Some 1746316800000) JNull
         (run refPlatform demoEvents (page0 demoDoc)))
       = [(nextId (run refPlatform demoEvents (page0 demoDoc)), LocalCountdown (Some 1746316800000))]"
proof -
  have h: "doc (run refPlatform demoEvents (page0 demoDoc)) ''nextRaceCountdown'' \<noteq> None"
    by code_simp
  show ?thesis
    using h one_countdown_timer [of refPlatform demoEvents demoDoc 1746310000000
        "Some 1746316800000" JNull JNull JNull]
    by simp
qed

lemma demo_run_timers:
  "timers (run refPlatform demoEvents (page0 demoDoc))
     = [(1, Clock), (4, LocalCountdown (Some 1746316800000))]"
  by code_simp

lemma demo_run_text:
  "doc (run refPlatform demoEvents (page0 demoDoc)) ''nextRaceCountdown'' = Some ''1h 53m 20s''"
  by code_simp

subsection \<open>The date of a race\<close>

lemma tame_convertible: "tame v \<Longrightarrow> convertible v"
  by (induction v rule: convertible.induct) (auto simp: list_all_iff)

lemma toStringJS_tame: "tame v \<Longrightarrow> toStringJS P v = Inr (textJS P v)"
  by (simp add: toStringJS_def tame_convertible)

lemma tame_fld: "tame v \<Longrightarrow> tame (fld v k)"
proof (cases v)
  case (JObj kvs)
  assume "tame v"
  with JObj have all: "list_all (\<lambda>kv. tame (snd kv)) kvs"
    by simp
  show ?thesis
  proof (cases "map_of kvs k")
    case None
    with JObj show ?thesis by simp
  next
    case (Some x)
    then have "(k, x) \<in> set kvs"
      by (rule map_of_SomeD)
    with all have "tame x"
      by (auto simp: list_all_iff)
    with JObj Some show ?thesis by simp
  qed
qed simp_all

lemma tame_opt: "tame v \<Longrightarrow> tame (opt v k)"
  by (simp add: opt_def tame_fld)

lemma tame_orElse: "tame a \<Longrightarrow> tame b \<Longrightarrow> tame (orElse a b)"
  by (simp add: orElse_def)

lemma newDate_tame: "tame v \<Longrightarrow> \<exists>d. newDate P v = Inr d"
  by (cases v) (simp_all add: toStringJS_tame del: tame.simps)

lemma newDateTime_tame: "tame d \<Longrightarrow> tame t \<Longrightarrow> \<exists>x. newDateTime P d t = Inr x"
  by (simp add: newDateTime_def toStringJS_tame)

lemma parseRaceDate_readable:
  assumes "readable race"
  shows "\<exists>d. parseRaceDate P race = Inr d"
proof -
  from assms have t: "tame race" and n: "\<not> nullish race"
    by (simp_all add: readable_def)
  note f = tame_fld [OF t]
  show ?thesis
    using assms n newDate_tame [OF f, of P] newDateTime_tame [OF f f, of P]
    by (auto simp: readable_def parseRaceDate_def split: json.splits)
qed

lemma parseRaceDate_date_time:
  "\<not> nullish race \<Longrightarrow> truthy (fld race ''date'') \<Longrightarrow> truthy (fld race ''time'') \<Longrightarrow>
     parseRaceDate P race = newDateTime P (fld race ''date'') (fld race ''time'')"
  by (simp add: parseRaceDate_def)

lemma newDateTime_strings: "newDateTime P (JStr a) (JStr b) = Inr (dateParse P (a @ ''T'' @ b))"
  by (simp add: newDateTime_def toStringJS_def)

lemma parseRaceDate_date:
  "\<not> nullish race \<Longrightarrow> truthy (fld race ''date'') \<Longrightarrow> \<not> truthy (fld race ''time'') \<Longrightarrow>
     parseRaceDate P race = newDate P (fld race ''date'')"
  by (simp add: parseRaceDate_def)

lemma parseRaceDate_sentinel:
  "\<not> nullish race \<Longrightarrow> \<not> truthy (fld race ''date'') \<Longrightarrow> \<not> truthy (fld race ''raceDate'') \<Longrightarrow>
     \<not> truthy (fld race ''startDate'') \<Longrightarrow> \<not> truthy (fld race ''datetime'') \<Longrightarrow>
     parseRaceDate P race = Inr (dateParse P ''2099-12-31'')"
  by (simp add: parseRaceDate_def)

lemma parseRaceDate_raceDate:
  "\<not> nullish race \<Longrightarrow> \<not> truthy (fld race ''date'') \<Longrightarrow> truthy (fld race ''raceDate'') \<Longrightarrow>
     parseRaceDate P race =
       (if truthy (fld race ''raceTime'')
        then newDateTime P (fld race ''raceDate'') (fld race ''raceTime'')
        else newDate P (fld race ''raceDate''))"
  by (simp add: parseRaceDate_def)

lemma parseRaceDate_startDate:
  "\<not> nullish race \<Longrightarrow> \<not> truthy (fld race ''date'') \<Longrightarrow> \<not> truthy (fld race ''raceDate'') \<Longrightarrow>
     truthy (fld race ''startDate'') \<Longrightarrow>
     parseRaceDate P race =
       (if truthy (fld race ''startTime'')
        then newDateTime P (fld race ''startDate'') (fld race ''startTime'')
        else newDate P (fld race ''startDate''))"
  by (simp add: parseRaceDate_def)

lemma parseRaceDate_datetime:
  "\<not> truthy (fld race ''date'') \<Longrightarrow> \<not> truthy (fld race ''raceDate'') \<Longrightarrow>
     \<not> truthy (fld race ''startDate'') \<Longrightarrow> fld race ''datetime'' = JStr (c # cs) \<Longrightarrow>
     parseRaceDate P race =
       Inr (dateParse P (replaceFirst ''Z'' [] (replaceFirst ''+03:00'' [] (c # cs))))"
  by (cases race) (simp_all add: parseRaceDate_def)

lemma parseRaceDate_unparsable:
  "dateParse P s = None \<Longrightarrow> s \<noteq> [] \<Longrightarrow>
     parseRaceDate P (JObj [(''date'', JStr s)]) = Inr None"
  by (simp add: parseRaceDate_def)

text \<open>
  C2. The order of the field combinations is as claimed (the lemmas above), and an event
  with none of the fields gets the date 2099-12-31. But an event whose date field is
  present and cannot be parsed gets an Invalid Date, not that sentinel.
\<close>

theorem unparsable_date_is_not_sentinel:
  "parseRaceDate refPlatform raceTbd = Inr None
    \<and> parseRaceDate refPlatform raceUndated = Inr (Some 4102358400000)"
  by code_simp


subsection \<open>The year filter\<close>

lemma filterYear_filter:
  "filterYear P now wanted rs = Inr kept \<Longrightarrow>
     kept = filter (\<lambda>race. extractYearFromRace P now race = Inr (Some wanted)) rs"
  by (induction rs arbitrary: kept) (auto split: sum.splits if_splits)

lemma yearOfDate_tame: "tame v \<Longrightarrow> \<exists>y. yearOfDate P v = Inr y"
  using newDate_tame [of v P] by (auto simp: yearOfDate_def)

lemma extractYear_tame:
  assumes n: "\<not> nullish race" and t: "tame race"
  shows "\<exists>y. extractYearFromRace P now race = Inr y"
proof -
  note f = tame_fld [OF t]
  obtain a where a: "yearOfDate P (fld race ''date'') = Inr a"
    using yearOfDate_tame [OF f] by blast
  obtain b where b: "yearOfDate P (fld race ''raceDate'') = Inr b"
    using yearOfDate_tame [OF f] by blast
  obtain c where c: "yearOfDate P (fld race ''startDate'') = Inr c"
    using yearOfDate_tame [OF f] by blast
  show ?thesis
    by (simp add: extractYearFromRace_def n a b c toStringJS_tame [OF f])
qed

lemma filterYear_total:
  "list_all (\<lambda>race. \<not> nullish race \<and> tame race) rs \<Longrightarrow>
     \<exists>kept. filterYear P now wanted rs = Inr kept"
proof (induction rs)
  case Nil
  show ?case by simp
next
  case (Cons r rs)
  then obtain kept where "filterYear P now wanted rs = Inr kept"
    by auto
  moreover from Cons.prems obtain y where "extractYearFromRace P now r = Inr y"
    using extractYear_tame [of r P now] by auto
  ultimately show ?case by simp
qed

lemma extractYear_default:
  "\<not> nullish race \<Longrightarrow> \<not> truthy (fld race ''date'') \<Longrightarrow> \<not> truthy (fld race ''raceDate'') \<Longrightarrow>
     \<not> truthy (fld race ''startDate'') \<Longrightarrow> \<not> truthy (fld race ''year'') \<Longrightarrow>
     extractYearFromRace P now race = Inr (Some (fullYearOf P now))"
  by (simp add: extractYearFromRace_def)

lemma extractYear_unparsable:
  "dateParse P s = None \<Longrightarrow> s \<noteq> [] \<Longrightarrow>
     extractYearFromRace P now (JObj [(''date'', JStr s)]) = Inr None
     \<and> filterYear P now wanted [JObj [(''date'', JStr s)]] = Inr []"
  by (simp add: extractYearFromRace_def yearOfDate_def)

text \<open>
  C3. An event whose date is present and cannot be parsed has the year NaN, not the
  current year: the filter drops it although the requested year is the current year.
\<close>

theorem unparsable_date_is_dropped:
  "fullYearOf refPlatform 1741532400000 = 2025
    \<and> extractYearFromRace refPlatform 1741532400000 raceTbd = Inr None
    \<and> loadRaceSchedule refPlatform 1741532400000 True 2025 (Inl (Error ''offline''))
         (NetworkError ''offline'') (Reply 200 (Inr (JObj [(''races'', JArr [raceTbd])])))
       = Inr (Finished \<lparr>finalRaces = JArr [], dataSource = ''manual-json'',
              shown = Some NoRacesFound, countdownStarted = False\<rparr>)"
  by code_simp

lemma undated_is_kept:
  "loadRaceSchedule refPlatform 1741532400000 False 2025 (Inl (Error ''offline''))
         (NetworkError ''offline'') (Reply 200 (Inr (JObj [(''races'', JArr [raceUndated])])))
       = Inr (Finished \<lparr>finalRaces = JArr [raceUndated], dataSource = ''manual-json'',
              shown = None, countdownStarted = True\<rparr>)"
  by code_simp


subsection \<open>The order of the schedule\<close>

lemma set_insertRace: "set (insertRace x ys) = insert x (set ys)"
  by (induction ys) auto

lemma mset_insertRace: "mset (insertRace x ys) = add_mset x (mset ys)"
  by (induction ys) auto

lemma mset_sortRaces: "mset (sortRaces ks) = mset ks"
  unfolding sortRaces_def by (induction ks) (simp_all add: mset_insertRace)

lemma ascending_insertRace:
  assumes "fst x \<noteq> None" "allDated ys" "ascending ys"
  shows "ascending (insertRace x ys)"
  using assms
proof (induction ys)
  case Nil
  then show ?case by (simp add: ascending_def)
next
  case (Cons y ys)
  then show ?case
    by (auto simp: ascending_def allDated_def compareDates_def set_insertRace list_all_iff)
qed

lemma allDated_insertRace:
  "fst x \<noteq> None \<Longrightarrow> allDated ys \<Longrightarrow> allDated (insertRace x ys)"
  by (simp add: allDated_def list_all_iff set_insertRace)

lemma sortRaces_Cons: "sortRaces (k # ks) = insertRace k (sortRaces ks)"
  by (simp add: sortRaces_def)

lemma ascending_sortRaces:
  "allDated ks \<Longrightarrow> ascending (sortRaces ks) \<and> allDated (sortRaces ks)"
proof (induction ks)
  case Nil
  show ?case by (simp add: sortRaces_def ascending_def allDated_def)
next
  case (Cons k ks)
  then have k: "fst k \<noteq> None" and ks: "allDated ks"
    by (simp_all add: allDated_def)
  from Cons.IH [OF ks] have "ascending (sortRaces ks)" "allDated (sortRaces ks)"
    by simp_all
  with k show ?case
    unfolding sortRaces_Cons by (intro conjI ascending_insertRace allDated_insertRace)
qed

text \<open>With every date valid the model's sort is the library's stable sort by key.\<close>

lemma insertRace_insort_key:
  "fst x \<noteq> None \<Longrightarrow> allDated ys \<Longrightarrow> insertRace x ys = insort_key (\<lambda>a. the (fst a)) x ys"
  by (induction ys) (auto simp: allDated_def compareDates_def)

lemma sortRaces_sort_key:
  "allDated ks \<Longrightarrow> sortRaces ks = sort_key (\<lambda>a. the (fst a)) ks"
proof (induction ks)
  case Nil
  show ?case by (simp add: sortRaces_def)
next
  case (Cons k ks)
  then have k: "fst k \<noteq> None" and ks: "allDated ks"
    by (simp_all add: allDated_def)
  have "allDated (sortRaces ks)"
    using ascending_sortRaces [OF ks] by simp
  with k Cons.IH [OF ks] show ?case
    unfolding sortRaces_Cons by (simp add: insertRace_insort_key)
qed

lemma cardDate_cardOf: "cardOf P now i k = Inr c \<Longrightarrow> cardDate c = fst k"
  by (auto simp: cardOf_def split: sum.splits)

lemma cardDate_cardsFrom: "cardsFrom P now i ks = Inr cards \<Longrightarrow> map cardDate cards = map fst ks"
  by (induction ks arbitrary: i cards) (auto simp: cardDate_cardOf split: sum.splits)

lemma keyed_snd: "keyed P rs = Inr ks \<Longrightarrow> map snd ks = rs"
  by (induction rs arbitrary: ks) (auto split: sum.splits)

lemma renderSchedule_sorted:
  assumes "keyed P races = Inr ks" "allDated ks" "renderSchedule P now races = Inr (rs, cards)"
  shows "sorted (map (\<lambda>c. the (cardDate c)) cards)
    \<and> mset rs = mset races \<and> length cards = length races"
proof -
  let ?o = "sortRaces ks"
  from assms(1,3) have c: "cardsFrom P now 0 ?o = Inr cards" and r: "rs = map snd ?o"
    by (auto simp: renderSchedule_def split: sum.splits)
  have "ascending ?o"
    using ascending_sortRaces [OF assms(2)] by simp
  then have "sorted (map (\<lambda>k. the (fst k)) ?o)"
    by (simp add: ascending_def sorted_wrt_map)
  moreover have "map (\<lambda>c. the (cardDate c)) cards = map (\<lambda>k. the (fst k)) ?o"
    using cardDate_cardsFrom [OF c, THEN arg_cong, of "map the"] by (simp add: comp_def)
  ultimately have s: "sorted (map (\<lambda>c. the (cardDate c)) cards)"
    by simp
  have "mset (map snd ?o) = mset (map snd ks)"
    using mset_sortRaces [of ks] by (metis mset_map)
  then have m: "mset rs = mset races"
    using keyed_snd [OF assms(1)] r by simp
  have "length cards = length (map cardDate cards)"
    by simp
  also have "\<dots> = length ?o"
    unfolding cardDate_cardsFrom [OF c] by simp
  also have "\<dots> = length races"
    using m r by (metis length_map size_mset)
  finally show ?thesis
    using s m by simp
qed

lemma mixed_shapes_sorted:
  "map_sum id (map cardDate \<circ> snd) (renderSchedule refPlatform 1741532400000 [jeddah, raceMar, bahrain])
     = Inr [Some 1741532400000, Some 1742083200000, Some 1742749200000]"
  by code_simp

text \<open>
  C6. When every date is valid the cards are in ascending order of \<open>parseRaceDate\<close>
  (\<open>renderSchedule_sorted\<close>). A list with an event whose date cannot be parsed is not
  put in order: the Invalid Date compares as equal to everything, each event of the
  list compares as equal to its neighbour, and May stays before March.
\<close>

theorem unparsable_date_breaks_order:
  "map_sum id (map cardDate \<circ> snd) (renderSchedule refPlatform 1741532400000 [raceMay, raceTbd, raceMar])
     = Inr [Some 1746316800000, None, Some 1742083200000]"
  by code_simp


subsection \<open>Normalisation\<close>

text \<open>
  C7. Resolving the fields of an event that is already in canonical shape gives the
  same event, at any position of the list.
\<close>

theorem normalize_canonical:
  assumes "normalizeEvent race i = Inr e"
  shows "normalizeEvent (canonical e) j = Inr e"
proof -
  from assms have e: "e = \<lparr>evRound = resolveRound race i, evName = resolveName race i,
      evCountry = resolveCountry race, evLocality = resolveLocality race\<rparr>"
    by (simp add: normalizeEvent_def split: if_splits)
  have r: "truthy (evRound e)"
    by (simp add: e resolveRound_def orElse_def)
  have n: "truthy (evName e)"
    by (simp add: e resolveName_def orElse_def)
  have c: "truthy (evCountry e)"
    by (simp add: e resolveCountry_def orElse_def)
  have l: "truthy (evLocality e) \<or> evLocality e = JStr []"
    by (simp add: e resolveLocality_def orElse_def)
  have "resolveRound (canonical e) j = evRound e"
    using r by (simp add: resolveRound_def canonical_def orElse_def)
  moreover have "resolveName (canonical e) j = evName e"
    using n by (simp add: resolveName_def canonical_def orElse_def)
  moreover have "resolveCountry (canonical e) = evCountry e"
    using c by (simp add: resolveCountry_def canonical_def orElse_def)
  moreover have "resolveLocality (canonical e) = evLocality e"
    using l by (auto simp: resolveLocality_def canonical_def orElse_def opt_def)
  ultimately show ?thesis
    by (simp add: normalizeEvent_def canonical_def)
qed

theorem normalize_canonical_witness:
  "normalizeEvent (JObj [(''raceName'', JStr ''Bahrain Grand Prix''),
        (''Circuit'', JObj [(''Location'', JObj [(''country'', JStr ''Bahrain'')])]),
        (''date'', JStr ''2025-03-09''), (''time'', JStr ''15:00:00Z'')]) 0
     = Inr \<lparr>evRound = JNum 1, evName = JStr ''Bahrain Grand Prix'',
            evCountry = JStr ''Bahrain'', evLocality = JStr []\<rparr>
   \<and> normalizeEvent (canonical \<lparr>evRound = JNum 1, evName = JStr ''Bahrain Grand Prix'',
            evCountry = JStr ''Bahrain'', evLocality = JStr []\<rparr>) 7
     = Inr \<lparr>evRound = JNum 1, evName = JStr ''Bahrain Grand Prix'',
            evCountry = JStr ''Bahrain'', evLocality = JStr []\<rparr>"
proof -
  have h: "normalizeEvent (JObj [(''raceName'', JStr ''Bahrain Grand Prix''),
        (''Circuit'', JObj [(''Location'', JObj [(''country'', JStr ''Bahrain'')])]),
        (''date'', JStr ''2025-03-09''), (''time'', JStr ''15:00:00Z'')]) 0
     = Inr \<lparr>evRound = JNum 1, evName = JStr ''Bahrain Grand Prix'',
            evCountry = JStr ''Bahrain'', evLocality = JStr []\<rparr>"
    by code_simp
  from h normalize_canonical [OF h, of 7] show ?thesis by simp
qed

subsection \<open>The secondary source\<close>

lemma isArray_elems: "isArray v \<Longrightarrow> v = JArr (elems v)"
  by (cases v) simp_all

lemma isArray_truthy: "isArray v \<Longrightarrow> truthy v \<and> \<not> nullish v"
  by (cases v) simp_all

lemma opt_fld: "\<not> nullish v \<Longrightarrow> opt v k = fld v k"
  by (simp add: opt_def)

lemma probe_firstArray: "probe data = Inr rs \<longleftrightarrow> firstArray data = Some rs"
proof (cases "nullish data")
  case True
  then show ?thesis
    by (cases data) (simp_all add: probe_def firstArray_def shapes_def opt_def)
next
  case False
  then show ?thesis
    by (auto simp: probe_def firstArray_def shapes_def opt_fld isArray_truthy)
qed

lemma hasName_not_nullish: "hasName race \<Longrightarrow> \<not> nullish race"
  by (cases race) (simp_all add: hasName_def orElse_def)

lemma hasValidData_split:
  "hasValidData rs = Inr True \<longleftrightarrow>
     (\<exists>pre race post. rs = pre @ race # post \<and> hasName race \<and> list_all (\<lambda>x. \<not> nullish x) pre)"
proof
  show "hasValidData rs = Inr True \<Longrightarrow>
     \<exists>pre race post. rs = pre @ race # post \<and> hasName race \<and> list_all (\<lambda>x. \<not> nullish x) pre"
  proof (induction rs)
    case Nil
    then show ?case by simp
  next
    case (Cons r rs)
    show ?case
    proof (cases "hasName r")
      case True
      then have "r # rs = [] @ r # rs \<and> hasName r \<and> list_all (\<lambda>x. \<not> nullish x) []"
        by simp
      then show ?thesis by blast
    next
      case False
      with Cons.prems have nn: "\<not> nullish r" and "hasValidData rs = Inr True"
        by (simp_all split: if_splits)
      with Cons.IH obtain pre race post where
        "rs = pre @ race # post" "hasName race" "list_all (\<lambda>x. \<not> nullish x) pre"
        by blast
      with nn have "r # rs = (r # pre) @ race # post \<and> hasName race
          \<and> list_all (\<lambda>x. \<not> nullish x) (r # pre)"
        by simp
      then show ?thesis by blast
    qed
  qed
next
  assume "\<exists>pre race post. rs = pre @ race # post \<and> hasName race \<and> list_all (\<lambda>x. \<not> nullish x) pre"
  then obtain pre race post where
    rs: "rs = pre @ race # post" and n: "hasName race" and p: "list_all (\<lambda>x. \<not> nullish x) pre"
    by blast
  from p show "hasValidData rs = Inr True"
    unfolding rs
  proof (induction pre)
    case Nil
    with n show ?case by (simp add: hasName_not_nullish)
  next
    case (Cons a pre)
    then show ?case by simp
  qed
qed

lemma tier2_accepts:
  "tier2 r = Inr rs \<longleftrightarrow>
     (\<exists>status data. r = Reply status (Inr data) \<and> ok status \<and> firstArray data = Some rs
        \<and> rs \<noteq> [] \<and> hasValidData rs = Inr True)"
proof (cases r)
  case (NetworkError m)
  then show ?thesis by (simp add: tier2_def)
next
  case (Reply status body)
  show ?thesis
  proof (cases body)
    case (Inl m)
    with Reply show ?thesis by (simp add: tier2_def)
  next
    case (Inr data)
    show ?thesis
    proof (cases "probe data")
      case (Inl e)
      then have "\<forall>rs. firstArray data \<noteq> Some rs"
        using probe_firstArray [of data] by (metis Inl_Inr_False)
      with Reply Inr Inl show ?thesis by (simp add: tier2_def)
    next
      case pr: (Inr found)
      then have f: "firstArray data = Some found"
        by (simp add: probe_firstArray)
      show ?thesis
        unfolding Reply Inr
        by (cases "hasValidData found") (auto simp: tier2_def pr f split: if_splits)
    qed
  qed
qed

lemma acquire_falls_through:
  "isl (tier1 P backendData) \<Longrightarrow> isl (tier2 r) \<Longrightarrow>
     acquire P backendData r manual
       = (case tier3 manual of Inr rs \<Rightarrow> Acquired rs ''manual-json'' | Inl e \<Rightarrow> AllFailed)"
  by (auto simp: acquire_def isl_def split: sum.splits)

text \<open>
  C4 (amended). The secondary tier accepts a response exactly when the request
  succeeded, the first of the shapes top-level, \<open>races\<close>, \<open>data\<close>, \<open>schedule\<close> that
  is a list, empty or not, is not empty, and some event of it has a name that is not a
  placeholder, with no null entry before that event. When the tier fails after the
  primary one, the tertiary source decides.
\<close>

theorem rapidapi_accepts_first_array:
  "(tier2 r = Inr rs \<longleftrightarrow>
      (\<exists>status data. r = Reply status (Inr data) \<and> ok status \<and> firstArray data = Some rs
         \<and> rs \<noteq> []
         \<and> (\<exists>pre race post. rs = pre @ race # post \<and> hasName race
               \<and> list_all (\<lambda>x. \<not> nullish x) pre)))
   \<and> (isl (tier1 P backendData) \<and> isl (tier2 r) \<longrightarrow>
        acquire P backendData r manual
          = (case tier3 manual of Inr found \<Rightarrow> Acquired found ''manual-json'' | Inl e \<Rightarrow> AllFailed))"
  using tier2_accepts [of r rs] acquire_falls_through [of P backendData r manual]
  by (simp add: hasValidData_split)

theorem rapidapi_accepts_first_array_witness:
  "\<exists>status data. Reply 200 (Inr (JObj [(''schedule'', JArr [bahrain])])) = Reply status (Inr data)
      \<and> ok status \<and> firstArray data = Some [bahrain] \<and> [bahrain] \<noteq> []
      \<and> (\<exists>pre race post. [bahrain] = pre @ race # post \<and> hasName race
            \<and> list_all (\<lambda>x. \<not> nullish x) pre)"
proof -
  have h: "tier2 (Reply 200 (Inr (JObj [(''schedule'', JArr [bahrain])]))) = Inr [bahrain]"
    by code_simp
  show ?thesis
    using rapidapi_accepts_first_array [of "Reply 200 (Inr (JObj [(''schedule'', JArr [bahrain])]))"
        "[bahrain]" refPlatform "Inl TypeError" "NetworkError []", THEN conjunct1, THEN iffD1, OF h] .
qed

text \<open>
  The claim as stated fails: here the first non-empty list is \<open>data\<close> and its event
  has a name, but the code takes the empty \<open>races\<close> list and the tier fails.
\<close>

theorem rapidapi_first_nonempty_list_counterexample:
  "specFirstNonEmptyList emptyThenData = Some [raceMar]
    \<and> hasValidData [raceMar] = Inr True
    \<and> tier2 (Reply 200 (Inr emptyThenData)) = Inl (Error ''API returned empty array'')"
  by code_simp


subsection \<open>Acquisition\<close>

lemma readable_not_nullish: "readable race \<Longrightarrow> \<not> nullish race"
  by (simp add: readable_def)

lemma readable_tame: "readable race \<Longrightarrow> tame race"
  by (simp add: readable_def)

lemma filterYear_readable:
  assumes "list_all readable xs"
  shows "filterYear P now wanted xs
    = Inr (filter (\<lambda>race. extractYearFromRace P now race = Inr (Some wanted)) xs)"
proof -
  from assms have "list_all (\<lambda>race. \<not> nullish race \<and> tame race) xs"
    by (simp add: list_all_iff readable_not_nullish readable_tame)
  then obtain kept where k: "filterYear P now wanted xs = Inr kept"
    using filterYear_total by blast
  with filterYear_filter [OF k] show ?thesis by simp
qed

lemma keyed_readable: "list_all readable xs \<Longrightarrow> \<exists>ks. keyed P xs = Inr ks"
proof (induction xs)
  case Nil
  show ?case by simp
next
  case (Cons x xs)
  then obtain ks where "keyed P xs = Inr ks" by auto
  moreover from Cons.prems obtain d where "parseRaceDate P x = Inr d"
    using parseRaceDate_readable [of x P] by auto
  ultimately show ?case by simp
qed

lemma set_sortRaces: "set (sortRaces ks) = set ks"
  using mset_sortRaces [of ks] by (metis set_mset_mset)

lemma length_sortRaces: "length (sortRaces ks) = length ks"
  using mset_sortRaces [of ks] by (metis size_mset)

lemma keyed_length: "keyed P xs = Inr ks \<Longrightarrow> length ks = length xs"
  using keyed_snd [of P xs ks] by (metis length_map)

lemma tame_resolved:
  assumes "tame race"
  shows "tame (resolveRound race i)" "tame (resolveName race i)" "tame (resolveCountry race)"
    "tame (resolveLocality race)"
  using assms
  by (simp_all add: resolveRound_def resolveName_def resolveCountry_def resolveLocality_def
      tame_orElse tame_fld tame_opt)

lemma cardOf_tame: "tame (snd k) \<Longrightarrow> \<exists>c. cardOf P now i k = Inr c"
  by (simp add: cardOf_def toStringJS_tame tame_resolved)

lemma cardsFrom_tame:
  "list_all (\<lambda>k. tame (snd k)) ks \<Longrightarrow>
     \<exists>cards. cardsFrom P now i ks = Inr cards \<and> length cards = length ks"
proof (induction ks arbitrary: i)
  case Nil
  show ?case by simp
next
  case (Cons k ks)
  then obtain cards where "cardsFrom P now (Suc i) ks = Inr cards" "length cards = length ks"
    by auto
  moreover from Cons.prems obtain c where "cardOf P now i k = Inr c"
    using cardOf_tame [of k P now i] by auto
  ultimately show ?case by simp
qed

lemma renderSchedule_readable:
  assumes "list_all readable xs"
  shows "\<exists>ordered cards. renderSchedule P now xs = Inr (ordered, cards)
    \<and> mset ordered = mset xs \<and> length cards = length xs"
proof -
  from keyed_readable [OF assms] obtain ks where k: "keyed P xs = Inr ks"
    by blast
  have "mset (map snd (sortRaces ks)) = mset (map snd ks)"
    using mset_sortRaces [of ks] by (metis mset_map)
  then have m: "mset (map snd (sortRaces ks)) = mset xs"
    using keyed_snd [OF k] by simp
  have "snd ` set ks = set xs"
    using keyed_snd [OF k] by (metis set_map)
  then have "\<forall>k\<in>set ks. snd k \<in> set xs"
    by blast
  with assms have "list_all (\<lambda>k. tame (snd k)) (sortRaces ks)"
    by (simp add: list_all_iff set_sortRaces readable_tame)
  from cardsFrom_tame [OF this, of P now 0] obtain cards where
    c: "cardsFrom P now 0 (sortRaces ks) = Inr cards" "length cards = length (sortRaces ks)"
    by blast
  then have "length cards = length xs"
    by (simp add: length_sortRaces keyed_length [OF k])
  with k c m show ?thesis
    by (simp add: renderSchedule_def)
qed

lemma isPositive_length: "isPositive P (lengthOf (JArr xs)) = Inr (xs \<noteq> [])"
  by (simp add: isPositive_def)

text \<open>The end of loadRaceSchedule once a tier has delivered the array \<open>xs\<close>.\<close>

lemma load_finishes:
  assumes acq: "acquire P backendData rapid manual = Acquired (JArr xs) src"
    and rd: "list_all readable xs"
  shows "\<exists>L final. loadRaceSchedule P now hasList year backendData rapid manual = Inr (Finished L)
    \<and> dataSource L = src \<and> finalRaces L = JArr final
    \<and> mset final = mset (if src = ''rapidapi'' \<or> src = ''manual-json''
                          then filter (\<lambda>race. extractYearFromRace P now race = Inr (Some year)) xs
                          else xs)
    \<and> (hasList \<and> final \<noteq> [] \<longrightarrow> (\<exists>cards. shown L = Some (Cards cards) \<and> length cards = length final))
    \<and> (hasList \<and> final = [] \<longrightarrow> shown L = Some NoRacesFound)
    \<and> (\<not> hasList \<longrightarrow> shown L = None)"
proof -
  define kept where "kept = (if src = ''rapidapi'' \<or> src = ''manual-json''
      then filter (\<lambda>race. extractYearFromRace P now race = Inr (Some year)) xs else xs)"
  have rk: "list_all readable kept"
    using rd by (simp add: kept_def list_all_iff)
  have filt: "(if src = ''rapidapi'' \<or> src = ''manual-json''
                 then (case JArr xs of
                         JArr xs \<Rightarrow>
                           (case (if year \<noteq> fullYearOf P now
                                  then filterYear P now year xs
                                  else filterYear P now (fullYearOf P now) xs) of
                              Inl e \<Rightarrow> Inl e
                            | Inr kept \<Rightarrow> Inr (JArr kept))
                       | v \<Rightarrow> Inl TypeError)
                 else Inr (JArr xs)) = Inr (JArr kept)"
    by (simp add: kept_def filterYear_readable [OF rd])
  from renderSchedule_readable [OF rk] obtain ordered cards where
    rs: "renderSchedule P now kept = Inr (ordered, cards)"
    and m: "mset ordered = mset kept" and l: "length cards = length kept"
    by blast
  have le: "length ordered = length kept"
    using m by (metis size_mset)
  have oe: "ordered = [] \<longleftrightarrow> kept = []"
    using le by (metis length_0_conv)
  show ?thesis
  proof (cases "kept = []")
    case True
    then have "loadRaceSchedule P now hasList year backendData rapid manual
        = Inr (Finished \<lparr>finalRaces = JArr kept, dataSource = src,
             shown = (if hasList then Some NoRacesFound else None), countdownStarted = False\<rparr>)"
      unfolding loadRaceSchedule_def acq acquired.case filt
      by (simp add: isPositive_def)
    with True show ?thesis
      by (simp add: kept_def [symmetric])
  next
    case False
    show ?thesis
    proof (cases hasList)
      case True
      with False have "loadRaceSchedule P now hasList year backendData rapid manual
          = Inr (Finished \<lparr>finalRaces = JArr ordered, dataSource = src,
               shown = Some (Cards cards), countdownStarted = (year = fullYearOf P now)\<rparr>)"
        unfolding loadRaceSchedule_def acq acquired.case filt
        by (simp add: isPositive_def rs)
      with False True m l le oe show ?thesis
        by (simp add: kept_def [symmetric])
    next
      case nl: False
      with False have "loadRaceSchedule P now hasList year backendData rapid manual
          = Inr (Finished \<lparr>finalRaces = JArr kept, dataSource = src,
               shown = None, countdownStarted = (year = fullYearOf P now)\<rparr>)"
        unfolding loadRaceSchedule_def acq acquired.case filt
        by (simp add: isPositive_def)
      with False nl show ?thesis
        by (simp add: kept_def [symmetric])
    qed
  qed
qed

lemma acquire_cases:
  "acquire P backendData rapid manual = Acquired rs src \<Longrightarrow>
     (src = ''backend-fastf1'' \<and> tier1 P backendData = Inr rs)
   \<or> (src = ''rapidapi'' \<and> isl (tier1 P backendData) \<and> (\<exists>xs. tier2 rapid = Inr xs \<and> rs = JArr xs))
   \<or> (src = ''manual-json'' \<and> isl (tier1 P backendData) \<and> isl (tier2 rapid) \<and> tier3 manual = Inr rs)"
  by (auto simp: acquire_def split: sum.splits)

lemma acquire_AllFailed:
  "acquire P backendData rapid manual = AllFailed \<longleftrightarrow>
     isl (tier1 P backendData) \<and> isl (tier2 rapid) \<and> isl (tier3 manual)"
  by (auto simp: acquire_def isl_def split: sum.splits)

lemma tier1_nonempty: "tier1 P backendData = Inr (JArr xs) \<Longrightarrow> xs \<noteq> []"
  by (auto simp: tier1_def isPositive_def split: sum.splits if_splits)

text \<open>
  C1 (amended). Where the races a tier delivers are an array of events that can be
  read (none is null, none holds an object with an own property \<^verbatim>\<open>toString\<close>, and
  a \<open>datetime\<close> that is consulted is a string), \<open>loadRaceSchedule\<close> throws nothing. The source tag is the one of the first
  tier that succeeded. The list of the primary tier is shown as it is and is not
  empty; the list of the secondary or tertiary tier is first cut down to the requested
  year and may then be empty, in which case the message that no race was found is
  shown. When all three tiers fail, the three mock races are shown and no source tag
  is produced.
\<close>

theorem schedule_acquisition:
  assumes "wellFormed (acquire P backendData rapid manual)"
  shows "case acquire P backendData rapid manual of
           AllFailed \<Rightarrow>
             isl (tier1 P backendData) \<and> isl (tier2 rapid) \<and> isl (tier3 manual)
             \<and> loadRaceSchedule P now hasList year backendData rapid manual
                 = Inr (FellBack (if hasList then Some (MockCards mockRaces) else None))
             \<and> length mockRaces = 3
         | Acquired rs src \<Rightarrow>
             src = (if \<not> isl (tier1 P backendData) then ''backend-fastf1''
                    else if \<not> isl (tier2 rapid) then ''rapidapi'' else ''manual-json'')
             \<and> (\<exists>L final.
                   loadRaceSchedule P now hasList year backendData rapid manual = Inr (Finished L)
                   \<and> dataSource L = src \<and> finalRaces L = JArr final
                   \<and> mset final
                       = mset (if src = ''backend-fastf1'' then elems rs
                               else filter (\<lambda>race. extractYearFromRace P now race = Inr (Some year))
                                      (elems rs))
                   \<and> (src = ''backend-fastf1'' \<longrightarrow> final \<noteq> [])
                   \<and> (hasList \<and> final \<noteq> [] \<longrightarrow>
                        (\<exists>cards. shown L = Some (Cards cards) \<and> length cards = length final))
                   \<and> (hasList \<and> final = [] \<longrightarrow> shown L = Some NoRacesFound)
                   \<and> (\<not> hasList \<longrightarrow> shown L = None))"
proof (cases "acquire P backendData rapid manual")
  case AllFailed
  then show ?thesis
    by (simp add: acquire_AllFailed [symmetric] loadRaceSchedule_def mockRaces_def)
next
  case (Acquired rs src)
  with assms have arr: "isArray rs" and rd: "list_all readable (elems rs)"
    by (simp_all add: wellFormed_def)
  from arr have rs: "rs = JArr (elems rs)"
    by (rule isArray_elems)
  have acq: "acquire P backendData rapid manual = Acquired (JArr (elems rs)) src"
    using Acquired rs by simp
  from acquire_cases [OF Acquired] have
    tag: "src = (if \<not> isl (tier1 P backendData) then ''backend-fastf1''
                 else if \<not> isl (tier2 rapid) then ''rapidapi'' else ''manual-json'')"
    and known: "src = ''backend-fastf1'' \<or> src = ''rapidapi'' \<or> src = ''manual-json''"
    and ne: "src = ''backend-fastf1'' \<longrightarrow> elems rs \<noteq> []"
    using rs tier1_nonempty [of P backendData "elems rs"] by auto
  from load_finishes [OF acq rd, of now hasList year] obtain L final where
    f: "loadRaceSchedule P now hasList year backendData rapid manual = Inr (Finished L)"
      "dataSource L = src" "finalRaces L = JArr final"
      "mset final = mset (if src = ''rapidapi'' \<or> src = ''manual-json''
                          then filter (\<lambda>race. extractYearFromRace P now race = Inr (Some year))
                                 (elems rs)
                          else elems rs)"
      "hasList \<and> final \<noteq> [] \<longrightarrow> (\<exists>cards. shown L = Some (Cards cards) \<and> length cards = length final)"
      "hasList \<and> final = [] \<longrightarrow> shown L = Some NoRacesFound"
      "\<not> hasList \<longrightarrow> shown L = None"
    by blast
  have m: "mset final = mset (if src = ''backend-fastf1'' then elems rs
             else filter (\<lambda>race. extractYearFromRace P now race = Inr (Some year)) (elems rs))"
    using f(4) known by auto
  have "src = ''backend-fastf1'' \<longrightarrow> final \<noteq> []"
    using m ne by auto
  with f m tag show ?thesis
    unfolding Acquired acquired.case by blast
qed

theorem schedule_acquisition_witness:
  "wellFormed (acquire refPlatform (Inl (Error ''offline''))
       (Reply 200 (Inr (JObj [(''schedule'', JArr [bahrain])]))) (NetworkError ''offline''))
   \<and> (\<exists>L final. loadRaceSchedule refPlatform 1741532400000 True 2025 (Inl (Error ''offline''))
          (Reply 200 (Inr (JObj [(''schedule'', JArr [bahrain])]))) (NetworkError ''offline'')
          = Inr (Finished L)
        \<and> dataSource L = ''rapidapi'' \<and> finalRaces L = JArr final \<and> mset final = mset [bahrain])"
proof -
  have a: "acquire refPlatform (Inl (Error ''offline''))
       (Reply 200 (Inr (JObj [(''schedule'', JArr [bahrain])]))) (NetworkError ''offline'')
     = Acquired (JArr [bahrain]) ''rapidapi''"
    by code_simp
  have h: "wellFormed (acquire refPlatform (Inl (Error ''offline''))
       (Reply 200 (Inr (JObj [(''schedule'', JArr [bahrain])]))) (NetworkError ''offline''))"
    unfolding a by code_simp
  have y: "extractYearFromRace refPlatform 1741532400000 bahrain = Inr (Some 2025)"
    by code_simp
  from schedule_acquisition [OF h, of 1741532400000 True 2025]
  have "\<exists>L final. loadRaceSchedule refPlatform 1741532400000 True 2025 (Inl (Error ''offline''))
          (Reply 200 (Inr (JObj [(''schedule'', JArr [bahrain])]))) (NetworkError ''offline'')
          = Inr (Finished L)
        \<and> dataSource L = ''rapidapi'' \<and> finalRaces L = JArr final \<and> mset final = mset [bahrain]"
    unfolding a using y by auto
  with h show ?thesis by blast
qed

text \<open>
  The claim as stated fails: the secondary tier succeeds with a race of 2024, the year
  filter for 2025 leaves nothing, and the list that results is empty.
\<close>

theorem schedule_empty_after_filter_counterexample:
  "loadRaceSchedule refPlatform 1741532400000 True 2025 (Inl (Error ''offline''))
     (Reply 200 (Inr (JArr [race2024]))) (NetworkError ''offline'')
   = Inr (Finished \<lparr>finalRaces = JArr [], dataSource = ''rapidapi'',
                     shown = Some NoRacesFound, countdownStarted = False\<rparr>)"
  by code_simp

lemma all_tiers_fail:
  "loadRaceSchedule refPlatform 1741532400000 True 2025 (Inl (Error ''offline''))
     (NetworkError ''offline'') (NetworkError ''offline'')
   = Inr (FellBack (Some (MockCards mockRaces)))"
  by code_simp

lemma bahrain_scenario:
  "loadRaceSchedule refPlatform 1741532400000 True 2025 (Inl (Error ''offline''))
     (Reply 200 (Inr (JObj [(''schedule'', JArr [bahrain])]))) (NetworkError ''offline'')
   = Inr (Finished \<lparr>finalRaces = JArr [bahrain], dataSource = ''rapidapi'',
        shown = Some (Cards [\<lparr>cardRound = ''1'', cardStatus = ''Upcoming'',
                               cardCountry = ''Bahrain'', cardLocality = [],
                               cardName = ''Bahrain Grand Prix'',
                               cardDate = Some 1741532400000\<rparr>]),
        countdownStarted = True\<rparr>)"
  by code_simp

text \<open>
  An event with an object that has an own \<^verbatim>\<open>toString\<close> for a name is not readable:
  the template of its card throws.
\<close>

lemma unprintable_name_throws:
  "loadRaceSchedule refPlatform 1741532400000 True 2025 (Inl (Error ''offline''))
     (NetworkError ''offline'')
     (Reply 200 (Inr (JObj [(''races'',
        JArr [JObj [(''raceName'', JObj [(''toString'', JNull)]), (''date'', JStr ''2025-03-16'')]])])))
   = Inl TypeError"
  by code_simp

subsection \<open>The race the countdown runs to\<close>

lemma setText_other: "i \<noteq> j \<Longrightarrow> setText d i t j = d j"
  by (simp add: setText_def)

lemma setText_same: "setText d i t i = (if d i = None then None else Some t)"
  by (simp add: setText_def)

lemma writeText_page:
  assumes "writeText P i v suffix s = Inr s1"
  shows "timers s1 = timers s" "countdownInterval s1 = countdownInterval s" "nextId s1 = nextId s"
    "j \<noteq> i \<Longrightarrow> doc s1 j = doc s j" "doc s1 i = None \<longleftrightarrow> doc s i = None"
    "doc s i = None \<or> convertible v"
  using assms
  by (auto simp: writeText_def toStringJS_def setText_def split: if_splits)

lemma writeText_ok:
  "doc s i = None \<or> convertible v \<Longrightarrow> \<exists>s1. writeText P i v suffix s = Inr s1"
  by (auto simp: writeText_def toStringJS_def)

lemma writeText_throws:
  "writeText P i v suffix s = Inl e \<Longrightarrow> doc s i \<noteq> None \<and> \<not> convertible v"
  by (auto simp: writeText_def toStringJS_def split: if_splits)

text \<open>
  The name \<open>updateCountdownFromBackend\<close> writes has been converted by its caller just
  before: where the name element exists, that conversion did not throw.
\<close>

lemma written_name_is_text:
  assumes "writeText P i v [] s = Inr s1"
  shows "doc s1 i = None \<or> toStringJS P v = Inr (textJS P v)"
  using writeText_page(5,6) [OF assms] by (auto simp: toStringJS_def)

lemma backend_used:
  assumes "backendSupplies P answer s"
  shows "\<exists>nextRaceData s1. answer = Inr nextRaceData
    \<and> writeText P ''nextRaceName''
          (orElse (fld (fld nextRaceData ''race'') ''raceName'') (JStr ''Next Race'')) [] s = Inr s1
    \<and> (\<forall>races. startRaceCountdown P now later answer races s
          = Inr (updateCountdownFromBackend P (fld nextRaceData ''countdown'')
                   (fld nextRaceData ''race'') s1))"
proof -
  from assms obtain nextRaceData where a: "answer = Inr nextRaceData"
    by (cases answer) (simp_all add: backendSupplies_def)
  with assms have t: "truthy nextRaceData" "truthy (fld nextRaceData ''success'')"
      "truthy (fld nextRaceData ''race'')" "truthy (fld nextRaceData ''countdown'')"
    and c: "doc s ''nextRaceName'' = None
        \<or> convertible (orElse (fld (fld nextRaceData ''race'') ''raceName'') (JStr ''Next Race''))"
    and p: "isPositive P (fld (fld nextRaceData ''countdown'') ''total_seconds'') = Inr True"
    by (simp_all add: backendSupplies_def)
  from writeText_ok [OF c] obtain s1 where
    w: "writeText P ''nextRaceName''
          (orElse (fld (fld nextRaceData ''race'') ''raceName'') (JStr ''Next Race'')) [] s = Inr s1"
    by blast
  have "startRaceCountdown P now later answer races s
      = Inr (updateCountdownFromBackend P (fld nextRaceData ''countdown'')
               (fld nextRaceData ''race'') s1)" for races
    using a t w p by (simp add: startRaceCountdown_def Let_def)
  with a w show ?thesis by blast
qed

lemma updateCountdownFromBackend_starts:
  assumes "doc s ''nextRaceCountdown'' \<noteq> None"
  shows "countdownInterval (updateCountdownFromBackend P countdown race s) = Some (nextId s)"
    and "(nextId s, BackendCountdown race)
           \<in> set (timers (updateCountdownFromBackend P countdown race s))"
  using assms
  by (simp_all add: updateCountdownFromBackend_def Let_def setInterval_def clearStored_keeps
      del: not_None_eq)

lemma start_without_backend:
  assumes "\<not> backendSupplies P answer s"
  shows "\<exists>s1. startRaceCountdown P now later answer races s = localCountdown P now later races s1
    \<and> timers s1 = timers s \<and> countdownInterval s1 = countdownInterval s \<and> nextId s1 = nextId s
    \<and> doc s1 ''nextRaceCountdown'' = doc s ''nextRaceCountdown''
    \<and> (doc s1 ''nextRaceName'' = None \<longleftrightarrow> doc s ''nextRaceName'' = None)"
proof -
  have same: ?thesis
    if "startRaceCountdown P now later answer races s = localCountdown P now later races s"
    using that by (intro exI [of _ s]) simp
  show ?thesis
  proof (cases answer)
    case (Inl e)
    then show ?thesis
      by (intro same) (simp add: startRaceCountdown_def)
  next
    case (Inr nextRaceData)
    let ?race = "fld nextRaceData ''race''"
    let ?cd = "fld nextRaceData ''countdown''"
    let ?name = "orElse (fld ?race ''raceName'') (JStr ''Next Race'')"
    show ?thesis
    proof (cases "truthy nextRaceData \<and> truthy (fld nextRaceData ''success'') \<and> truthy ?race")
      case False
      with Inr show ?thesis
        by (intro same) (auto simp: startRaceCountdown_def)
    next
      case True
      show ?thesis
      proof (cases "writeText P ''nextRaceName'' ?name [] s")
        case (Inl e)
        with True Inr show ?thesis
          by (intro same) (simp add: startRaceCountdown_def Let_def)
      next
        case w: (Inr s1)
        note pg = writeText_page [OF w]
        have "\<not> (truthy ?cd \<and> isPositive P (fld ?cd ''total_seconds'') = Inr True)"
          using assms Inr True pg(6) by (simp add: backendSupplies_def)
        then have "startRaceCountdown P now later answer races s
            = localCountdown P now later races s1"
          using Inr True w
          by (auto simp: startRaceCountdown_def Let_def split: sum.splits)
        moreover have "doc s1 ''nextRaceCountdown'' = doc s ''nextRaceCountdown''"
          by (rule pg(4)) simp
        ultimately show ?thesis
          using pg(1,2,3,5) by (intro exI [of _ s1]) simp
      qed
    qed
  qed
qed

lemma find_none_after:
  "list_all (\<lambda>k. \<not> after (fst k) now) ks \<Longrightarrow>
     find (\<lambda>k. after (fst k) now) (sortRaces ks) = None"
  by (auto simp: find_None_iff set_sortRaces list_all_iff)

lemma find_hd: "xs \<noteq> [] \<Longrightarrow> Q (hd xs) \<Longrightarrow> find Q xs = Some (hd xs)"
  by (cases xs) simp_all

lemma find_set: "find Q xs = Some k \<Longrightarrow> k \<in> set xs \<and> Q k"
  by (induction xs) (auto split: if_splits)

lemma find_least:
  "ascending xs \<Longrightarrow> find Q xs = Some k \<Longrightarrow> j \<in> set xs \<Longrightarrow> Q j \<Longrightarrow>
     the (fst k) \<le> the (fst j)"
proof (induction xs)
  case Nil
  then show ?case by simp
next
  case (Cons x xs)
  show ?case
  proof (cases "Q x")
    case True
    with Cons.prems show ?thesis
      by (auto simp: ascending_def)
  next
    case False
    with Cons.prems have "ascending xs" "find Q xs = Some k" "j \<in> set xs"
      by (auto simp: ascending_def)
    with Cons.IH Cons.prems(4) show ?thesis by blast
  qed
qed

lemma ascending_hd_least:
  "ascending xs \<Longrightarrow> k \<in> set xs \<Longrightarrow> the (fst (hd xs)) \<le> the (fst k)"
  by (cases xs) (auto simp: ascending_def)

lemma local_season_ended:
  assumes "selectNextRace P now races = Inr None"
  shows "localCountdown P now later races s1 = Inr (seasonEnded s1)"
  using assms by (simp add: localCountdown_def)

lemma seasonEnded_page:
  "timers (seasonEnded s1) = timers s1" "countdownInterval (seasonEnded s1) = countdownInterval s1"
  "doc (seasonEnded s1) ''nextRaceCountdown''
     = (if doc s1 ''nextRaceCountdown'' = None then None else Some ''Season Ended'')"
  by (simp_all add: seasonEnded_def setText_other setText_same)

lemma updateCountdown_starts:
  assumes "doc s ''nextRaceCountdown'' \<noteq> None"
  shows "countdownInterval (updateCountdown now targetDate raceName s) = Some (nextId s)"
    and "(nextId s, LocalCountdown targetDate) \<in> set (timers (updateCountdown now targetDate raceName s))"
  using assms
  by (simp_all add: updateCountdown_def Let_def setInterval_def clearStored_keeps del: not_None_eq)

lemma local_starts:
  assumes "selectNextRace P now races = Inr (Some (targetDate, nextRace))" "truthy nextRace"
    "doc s1 ''nextRaceCountdown'' \<noteq> None"
    "doc s1 ''nextRaceName'' = None \<or> convertible (countdownName nextRace)"
  shows "\<exists>s'. localCountdown P now later races s1 = Inr s'
    \<and> countdownInterval s' = Some (nextId s1)
    \<and> (nextId s1, LocalCountdown targetDate) \<in> set (timers s')"
proof -
  from writeText_ok [OF assms(4)] obtain s2 where
    w: "writeText P ''nextRaceName'' (countdownName nextRace) '' - Countdown'' s1 = Inr s2"
    by blast
  note pg = writeText_page [OF w]
  have l: "localCountdown P now later races s1
      = Inr (updateCountdown later targetDate (countdownName nextRace) s2)"
    using assms(1,2) w by (simp add: localCountdown_def)
  have "doc s2 ''nextRaceCountdown'' = doc s1 ''nextRaceCountdown''"
    by (rule pg(4)) simp
  with assms(3) have d: "doc s2 ''nextRaceCountdown'' \<noteq> None"
    by simp
  from updateCountdown_starts [OF d, where now = later and targetDate = targetDate
      and raceName = "countdownName nextRace"] l pg(3) show ?thesis
    by simp
qed

text \<open>
  C5 (amended). \<open>startRaceCountdown\<close> asks the backend first. When the backend supplies
  a next race whose name can be written and a countdown with
  \<^verbatim>\<open>total_seconds > 0\<close>, the backend's countdown is used: the result is that of
  \<open>updateCountdownFromBackend\<close>, it is the same for every list of races, and where the
  countdown element exists the backend's timer is started. Otherwise, when every event
  has a valid date, the target is the first event, in ascending order of date, whose
  date is strictly after now: it is an event of the list, and no event after now is
  earlier; for an event that is truthy and whose name can be written, the countdown
  timer is started for its date. If no event is after now, none is selected, the
  countdown element, where it exists, reads ``Season Ended'' and no timer is started.
  If every event is after now, the earliest event is the one selected.
\<close>

theorem countdown_selection:
  "(backendSupplies P answer s \<longrightarrow>
      (\<exists>nextRaceData s1.
          answer = Inr nextRaceData
        \<and> timers s1 = timers s \<and> countdownInterval s1 = countdownInterval s
        \<and> nextId s1 = nextId s
        \<and> startRaceCountdown P now later answer races s
            = Inr (updateCountdownFromBackend P (fld nextRaceData ''countdown'')
                     (fld nextRaceData ''race'') s1)
        \<and> startRaceCountdown P now later answer others s
            = startRaceCountdown P now later answer races s
        \<and> (doc s ''nextRaceCountdown'' \<noteq> None \<longrightarrow>
              (\<exists>s'. startRaceCountdown P now later answer races s = Inr s'
                 \<and> countdownInterval s' = Some (nextId s)
                 \<and> (nextId s, BackendCountdown (fld nextRaceData ''race'')) \<in> set (timers s')))))
   \<and> (\<not> backendSupplies P answer s \<and> keyed P races = Inr ks \<and> allDated ks \<longrightarrow>
        ascending (sortRaces ks) \<and> mset (sortRaces ks) = mset ks
      \<and> selectNextRace P now races = Inr (find (\<lambda>k. after (fst k) now) (sortRaces ks))
      \<and> (case find (\<lambda>k. after (fst k) now) (sortRaces ks) of
            None \<Rightarrow>
              list_all (\<lambda>k. \<not> after (fst k) now) ks
              \<and> (\<exists>s'. startRaceCountdown P now later answer races s = Inr s'
                    \<and> timers s' = timers s \<and> countdownInterval s' = countdownInterval s
                    \<and> doc s' ''nextRaceCountdown''
                        = (if doc s ''nextRaceCountdown'' = None then None
                           else Some ''Season Ended''))
          | Some k \<Rightarrow>
              k \<in> set ks \<and> after (fst k) now
              \<and> list_all (\<lambda>j. after (fst j) now \<longrightarrow> the (fst k) \<le> the (fst j)) ks
              \<and> (truthy (snd k) \<and> doc s ''nextRaceCountdown'' \<noteq> None
                   \<and> (doc s ''nextRaceName'' = None \<or> convertible (countdownName (snd k))) \<longrightarrow>
                    (\<exists>s'. startRaceCountdown P now later answer races s = Inr s'
                       \<and> countdownInterval s' = Some (nextId s)
                       \<and> (nextId s, LocalCountdown (fst k)) \<in> set (timers s'))))
      \<and> (list_all (\<lambda>k. \<not> after (fst k) now) ks \<longrightarrow>
            find (\<lambda>k. after (fst k) now) (sortRaces ks) = None)
      \<and> (ks \<noteq> [] \<and> list_all (\<lambda>k. after (fst k) now) ks \<longrightarrow>
            find (\<lambda>k. after (fst k) now) (sortRaces ks) = Some (hd (sortRaces ks))
            \<and> list_all (\<lambda>k. the (fst (hd (sortRaces ks))) \<le> the (fst k)) ks))"
proof (intro conjI impI)
  assume b: "backendSupplies P answer s"
  from backend_used [OF b, of now later] obtain nextRaceData s1 where
    a: "answer = Inr nextRaceData"
    and w: "writeText P ''nextRaceName''
          (orElse (fld (fld nextRaceData ''race'') ''raceName'') (JStr ''Next Race'')) [] s = Inr s1"
    and st: "\<And>rs. startRaceCountdown P now later answer rs s
          = Inr (updateCountdownFromBackend P (fld nextRaceData ''countdown'')
                   (fld nextRaceData ''race'') s1)"
    by blast
  note pg = writeText_page [OF w]
  have timer: "\<exists>s'. startRaceCountdown P now later answer races s = Inr s'
       \<and> countdownInterval s' = Some (nextId s)
       \<and> (nextId s, BackendCountdown (fld nextRaceData ''race'')) \<in> set (timers s')"
    if el: "doc s ''nextRaceCountdown'' \<noteq> None"
  proof -
    have "doc s1 ''nextRaceCountdown'' = doc s ''nextRaceCountdown''"
      by (rule pg(4)) simp
    with el have d: "doc s1 ''nextRaceCountdown'' \<noteq> None"
      by simp
    from updateCountdownFromBackend_starts [OF d, where P = P
        and countdown = "fld nextRaceData ''countdown''" and race = "fld nextRaceData ''race''"]
      st [of races] pg(3)
    show ?thesis by simp
  qed
  have same: "startRaceCountdown P now later answer others s
      = startRaceCountdown P now later answer races s"
    using st [of others] st [of races] by simp
  have "answer = Inr nextRaceData
        \<and> timers s1 = timers s \<and> countdownInterval s1 = countdownInterval s
        \<and> nextId s1 = nextId s
        \<and> startRaceCountdown P now later answer races s
            = Inr (updateCountdownFromBackend P (fld nextRaceData ''countdown'')
                     (fld nextRaceData ''race'') s1)
        \<and> startRaceCountdown P now later answer others s
            = startRaceCountdown P now later answer races s
        \<and> (doc s ''nextRaceCountdown'' \<noteq> None \<longrightarrow>
              (\<exists>s'. startRaceCountdown P now later answer races s = Inr s'
                 \<and> countdownInterval s' = Some (nextId s)
                 \<and> (nextId s, BackendCountdown (fld nextRaceData ''race'')) \<in> set (timers s')))"
  proof (intro conjI impI)
    show "answer = Inr nextRaceData"
      by (rule a)
    show "timers s1 = timers s"
      by (rule pg(1))
    show "countdownInterval s1 = countdownInterval s"
      by (rule pg(2))
    show "nextId s1 = nextId s"
      by (rule pg(3))
    show "startRaceCountdown P now later answer races s
        = Inr (updateCountdownFromBackend P (fld nextRaceData ''countdown'')
                 (fld nextRaceData ''race'') s1)"
      by (rule st)
    show "startRaceCountdown P now later answer others s
        = startRaceCountdown P now later answer races s"
      by (rule same)
    assume "doc s ''nextRaceCountdown'' \<noteq> None"
    then show "\<exists>s'. startRaceCountdown P now later answer races s = Inr s'
        \<and> countdownInterval s' = Some (nextId s)
        \<and> (nextId s, BackendCountdown (fld nextRaceData ''race'')) \<in> set (timers s')"
      by (rule timer)
  qed
  then show "\<exists>nextRaceData s1.
          answer = Inr nextRaceData
        \<and> timers s1 = timers s \<and> countdownInterval s1 = countdownInterval s
        \<and> nextId s1 = nextId s
        \<and> startRaceCountdown P now later answer races s
            = Inr (updateCountdownFromBackend P (fld nextRaceData ''countdown'')
                     (fld nextRaceData ''race'') s1)
        \<and> startRaceCountdown P now later answer others s
            = startRaceCountdown P now later answer races s
        \<and> (doc s ''nextRaceCountdown'' \<noteq> None \<longrightarrow>
              (\<exists>s'. startRaceCountdown P now later answer races s = Inr s'
                 \<and> countdownInterval s' = Some (nextId s)
                 \<and> (nextId s, BackendCountdown (fld nextRaceData ''race'')) \<in> set (timers s')))"
    by (intro exI [where x = nextRaceData] exI [where x = s1])
next
  assume h: "\<not> backendSupplies P answer s \<and> keyed P races = Inr ks \<and> allDated ks"
  then show "ascending (sortRaces ks)"
    using ascending_sortRaces [of ks] by simp
next
  show "mset (sortRaces ks) = mset ks"
    by (rule mset_sortRaces)
next
  assume h: "\<not> backendSupplies P answer s \<and> keyed P races = Inr ks \<and> allDated ks"
  then show "selectNextRace P now races = Inr (find (\<lambda>k. after (fst k) now) (sortRaces ks))"
    by (simp add: selectNextRace_def)
next
  assume h: "\<not> backendSupplies P answer s \<and> keyed P races = Inr ks \<and> allDated ks"
  let ?o = "sortRaces ks"
  have sel: "selectNextRace P now races = Inr (find (\<lambda>k. after (fst k) now) ?o)"
    using h by (simp add: selectNextRace_def)
  have asc: "ascending ?o"
    using h ascending_sortRaces [of ks] by simp
  from h have nb: "\<not> backendSupplies P answer s"
    by simp
  from start_without_backend [OF nb, of now later races] obtain s1 where
    "startRaceCountdown P now later answer races s = localCountdown P now later races s1
    \<and> timers s1 = timers s \<and> countdownInterval s1 = countdownInterval s \<and> nextId s1 = nextId s
    \<and> doc s1 ''nextRaceCountdown'' = doc s ''nextRaceCountdown''
    \<and> (doc s1 ''nextRaceName'' = None \<longleftrightarrow> doc s ''nextRaceName'' = None)" ..
  then have
    st: "startRaceCountdown P now later answer races s = localCountdown P now later races s1"
    and s1: "timers s1 = timers s" "countdownInterval s1 = countdownInterval s"
      "nextId s1 = nextId s" "doc s1 ''nextRaceCountdown'' = doc s ''nextRaceCountdown''"
      "doc s1 ''nextRaceName'' = None \<longleftrightarrow> doc s ''nextRaceName'' = None"
    by simp_all
  show "case find (\<lambda>k. after (fst k) now) ?o of
            None \<Rightarrow>
              list_all (\<lambda>k. \<not> after (fst k) now) ks
              \<and> (\<exists>s'. startRaceCountdown P now later answer races s = Inr s'
                    \<and> timers s' = timers s \<and> countdownInterval s' = countdownInterval s
                    \<and> doc s' ''nextRaceCountdown''
                        = (if doc s ''nextRaceCountdown'' = None then None
                           else Some ''Season Ended''))
          | Some k \<Rightarrow>
              k \<in> set ks \<and> after (fst k) now
              \<and> list_all (\<lambda>j. after (fst j) now \<longrightarrow> the (fst k) \<le> the (fst j)) ks
              \<and> (truthy (snd k) \<and> doc s ''nextRaceCountdown'' \<noteq> None
                   \<and> (doc s ''nextRaceName'' = None \<or> convertible (countdownName (snd k))) \<longrightarrow>
                    (\<exists>s'. startRaceCountdown P now later answer races s = Inr s'
                       \<and> countdownInterval s' = Some (nextId s)
                       \<and> (nextId s, LocalCountdown (fst k)) \<in> set (timers s')))"
  proof (cases "find (\<lambda>k. after (fst k) now) ?o")
    case None
    then have none: "list_all (\<lambda>k. \<not> after (fst k) now) ks"
      by (auto simp: find_None_iff set_sortRaces list_all_iff)
    have n: "selectNextRace P now races = Inr None"
      using sel None by simp
    have "startRaceCountdown P now later answer races s = Inr (seasonEnded s1)"
      using st local_season_ended [OF n] by simp
    with none s1 None show ?thesis
      by (simp add: seasonEnded_page)
  next
    case (Some k)
    from find_set [OF Some] have mem: "k \<in> set ks" and aft: "after (fst k) now"
      by (simp_all add: set_sortRaces)
    have least: "list_all (\<lambda>j. after (fst j) now \<longrightarrow> the (fst k) \<le> the (fst j)) ks"
      unfolding list_all_iff
      using find_least [OF asc Some] by (simp add: set_sortRaces)
    have "\<exists>s'. startRaceCountdown P now later answer races s = Inr s'
               \<and> countdownInterval s' = Some (nextId s)
               \<and> (nextId s, LocalCountdown (fst k)) \<in> set (timers s')"
      if t: "truthy (snd k)" and el: "doc s ''nextRaceCountdown'' \<noteq> None"
        and nm: "doc s ''nextRaceName'' = None \<or> convertible (countdownName (snd k))"
    proof -
      have a': "selectNextRace P now races = Inr (Some (fst k, snd k))"
        using sel Some by simp
      have el1: "doc s1 ''nextRaceCountdown'' \<noteq> None"
        using el s1(4) by simp
      have nm1: "doc s1 ''nextRaceName'' = None \<or> convertible (countdownName (snd k))"
        using nm s1(5) by blast
      from local_starts [OF a' t el1 nm1, where later = later] st s1(3) show ?thesis
        by simp
    qed
    with mem aft least Some show ?thesis
      by simp
  qed
next
  assume "list_all (\<lambda>k. \<not> after (fst k) now) ks"
  then show "find (\<lambda>k. after (fst k) now) (sortRaces ks) = None"
    by (rule find_none_after)
next
  assume h: "\<not> backendSupplies P answer s \<and> keyed P races = Inr ks \<and> allDated ks"
    and u: "ks \<noteq> [] \<and> list_all (\<lambda>k. after (fst k) now) ks"
  let ?o = "sortRaces ks"
  have ne: "?o \<noteq> []"
    using u set_sortRaces [of ks] by (metis set_empty)
  then have "hd ?o \<in> set ks"
    using set_sortRaces [of ks] by (metis hd_in_set)
  with u have "after (fst (hd ?o)) now"
    by (simp add: list_all_iff)
  with ne show "find (\<lambda>k. after (fst k) now) ?o = Some (hd ?o)"
    by (intro find_hd)
next
  assume h: "\<not> backendSupplies P answer s \<and> keyed P races = Inr ks \<and> allDated ks"
  have asc: "ascending (sortRaces ks)"
    using h ascending_sortRaces [of ks] by simp
  show "list_all (\<lambda>k. the (fst (hd (sortRaces ks))) \<le> the (fst k)) ks"
    unfolding list_all_iff using ascending_hd_least [OF asc] set_sortRaces [of ks] by blast
qed

theorem countdown_selection_witness:
  "\<not> backendSupplies refPlatform (Inl (Error ''offline'')) (page0 demoDoc)
   \<and> keyed refPlatform [raceMay, raceMar]
       = Inr [(Some 1746316800000, raceMay), (Some 1742083200000, raceMar)]
   \<and> allDated [(Some 1746316800000, raceMay), (Some 1742083200000, raceMar)]
   \<and> selectNextRace refPlatform 1746310000000 [raceMay, raceMar]
       = Inr (Some (Some 1746316800000, raceMay))
   \<and> (\<exists>s'. startRaceCountdown refPlatform 1746310000000 1746310000500 (Inl (Error ''offline''))
               [raceMay, raceMar] (page0 demoDoc) = Inr s'
          \<and> countdownInterval s' = Some 1
          \<and> (1, LocalCountdown (Some 1746316800000)) \<in> set (timers s'))
   \<and> backendSupplies refPlatform (Inr backendAnswer) (page0 demoDoc)
   \<and> (\<exists>s'. startRaceCountdown refPlatform 1746310000000 1746310000500 (Inr backendAnswer)
               [raceMar] (page0 demoDoc) = Inr s'
          \<and> countdownInterval s' = Some 1
          \<and> (1, BackendCountdown miami) \<in> set (timers s'))"
proof -
  let ?ks = "[(Some 1746316800000, raceMay), (Some 1742083200000, raceMar)]"
  have b: "\<not> backendSupplies refPlatform (Inl (Error ''offline'')) (page0 demoDoc)"
    by (simp add: backendSupplies_def)
  have k: "keyed refPlatform [raceMay, raceMar] = Inr ?ks"
    by code_simp
  have d: "allDated ?ks"
    by (simp add: allDated_def)
  have o: "sortRaces ?ks = [(Some 1742083200000, raceMar), (Some 1746316800000, raceMay)]"
    by code_simp
  have f: "find (\<lambda>k. after (fst k) 1746310000000)
      [(Some 1742083200000, raceMar), (Some 1746316800000, raceMay)]
      = Some (Some 1746316800000, raceMay)"
    by (simp add: after_def)
  have t: "truthy raceMay" "convertible (countdownName raceMay)"
    by code_simp+
  have e: "doc (page0 demoDoc) ''nextRaceCountdown'' \<noteq> None" "nextId (page0 demoDoc) = 1"
    by (simp_all add: page0_def demoDoc_def)
  have g: "backendSupplies refPlatform (Inr backendAnswer) (page0 demoDoc)"
    by code_simp
  have r: "fld backendAnswer ''race'' = miami"
    by code_simp
  from countdown_selection [where P = refPlatform and answer = "Inl (Error ''offline'')"
      and s = "page0 demoDoc" and now = 1746310000000 and later = 1746310000500
      and races = "[raceMay, raceMar]" and ks = ?ks] b k d
  have l: "selectNextRace refPlatform 1746310000000 [raceMay, raceMar]
       = Inr (Some (Some 1746316800000, raceMay))
     \<and> (\<exists>s'. startRaceCountdown refPlatform 1746310000000 1746310000500 (Inl (Error ''offline''))
               [raceMay, raceMar] (page0 demoDoc) = Inr s'
          \<and> countdownInterval s' = Some 1
          \<and> (1, LocalCountdown (Some 1746316800000)) \<in> set (timers s'))"
    unfolding o f using t e by simp
  from countdown_selection [where P = refPlatform and answer = "Inr backendAnswer"
      and s = "page0 demoDoc" and now = 1746310000000 and later = 1746310000500
      and races = "[raceMar]"] g
  have m: "\<exists>s'. startRaceCountdown refPlatform 1746310000000 1746310000500 (Inr backendAnswer)
               [raceMar] (page0 demoDoc) = Inr s'
          \<and> countdownInterval s' = Some 1
          \<and> (1, BackendCountdown miami) \<in> set (timers s')"
    using r e by auto
  from b k d l g m show ?thesis
    by (intro conjI) simp_all
qed

text \<open>
  The claim as stated fails: the only race is over, yet the backend supplies a next
  race with a positive countdown, so the countdown element does not read
  ``Season Ended'': the backend's countdown timer is started and the races are not
  looked at.
\<close>

theorem backend_countdown_counterexample:
  "keyed refPlatform [raceMar] = Inr [(Some 1742083200000, raceMar)]
   \<and> \<not> after (Some 1742083200000) 1746310000000
   \<and> map_sum id (\<lambda>s'. (doc s' ''nextRaceCountdown'', countdownTimers s'))
        (startRaceCountdown refPlatform 1746310000000 1746310000000 (Inr backendAnswer)
           [raceMar] (page0 demoDoc))
     = Inr (Some ''--'', [(1, BackendCountdown miami)])"
  by code_simp

lemma local_season_ended_example:
  "map_sum id (\<lambda>s'. (doc s' ''nextRaceCountdown'', countdownTimers s'))
        (startRaceCountdown refPlatform 1746310000000 1746310000000 (Inl (Error ''offline''))
           [raceMar] (page0 demoDoc))
     = Inr (Some ''Season Ended'', [])"
  by code_simp

text \<open>
  A backend race whose name cannot be written makes the try block throw: the races
  decide, as when the backend had failed.
\<close>

lemma unprintable_backend_name_example:
  "map_sum id (\<lambda>s'. (doc s' ''nextRaceCountdown'', countdownTimers s'))
        (startRaceCountdown refPlatform 1746310000000 1746310000000
           (Inr (JObj [(''success'', JBool True),
                       (''race'', JObj [(''raceName'', JObj [(''toString'', JNull)])]),
                       (''countdown'', JObj [(''total_seconds'', JNum 3600)])]))
           [raceMar] (page0 demoDoc))
     = Inr (Some ''Season Ended'', [])"
  by code_simp


end
